theory Spec2Isabelle
  imports Complex_Main
begin

section \<open>Conventions of the embedding\<close>

text \<open>
  The structured memory subsystem (\<^verbatim>\<open>src/memory/structured-store.ts\<close>,
  \<^verbatim>\<open>compression-engine.ts\<close>, \<^verbatim>\<open>structured-backend.ts\<close> and the markdown
  synchroniser \<^verbatim>\<open>markdown-sync.ts\<close>) is embedded function by function.

  \<^item> A JavaScript \<^verbatim>\<open>number\<close> holding a score or a weight is a \<open>real\<close>: rounding,
    overflow, \<^verbatim>\<open>NaN\<close> and \<^verbatim>\<open>Infinity\<close> of IEEE doubles are outside the model.
    Timestamps (milliseconds) and counters are \<open>int\<close>.
  \<^item> A string is a \<open>char list\<close> of bytes; case folding and whitespace are the ASCII ones.
  \<^item> \<^verbatim>\<open>Date.now()\<close> is an explicit argument \<open>now\<close> of every operation that reads the
    clock, \<^verbatim>\<open>randomUUID()\<close> a generator \<open>gen\<close> applied to a counter kept in the
    database state, and the local time zone a fixed offset in milliseconds.
  \<^item> The SQLite database is a record of tables, each a list of rows in insertion order.
    Whether the engine enforces the foreign keys of the schema is a switch of the
    connection (\<^verbatim>\<open>node:sqlite\<close> opens a database with the switch on, and the code never
    touches it); the database state carries it as \<open>foreign_keys\<close>.
  \<^item> A thrown exception is the \<open>Inl\<close> branch of a sum, paired with the database as the
    writes before the exception left it.
\<close>

section \<open>Strings as JavaScript uses them\<close>

definition isSpace :: "char \<Rightarrow> bool" where
  \<comment> \<open>the ASCII part of the regular expression class \<^verbatim>\<open>\s\<close>\<close>
  "isSpace c = (c = CHR '' '' \<or> c = CHR 0x09 \<or> c = CHR 0x0A \<or> c = CHR 0x0B
                \<or> c = CHR 0x0C \<or> c = CHR 0x0D)"

definition upperLetters :: string where
  "upperLetters = ''ABCDEFGHIJKLMNOPQRSTUVWXYZ''"

definition lowerLetters :: string where
  "lowerLetters = ''abcdefghijklmnopqrstuvwxyz''"

definition decimalDigits :: string where
  "decimalDigits = ''0123456789''"

definition lowerChar :: "char \<Rightarrow> char" where
  \<comment> \<open>an ASCII capital becomes the small letter at the same place of the alphabet\<close>
  "lowerChar c = (case map_of (zip upperLetters lowerLetters) c of None \<Rightarrow> c | Some l \<Rightarrow> l)"

definition toLowerCase :: "string \<Rightarrow> string" where
  "toLowerCase s = map lowerChar s"

fun splitOn :: "char \<Rightarrow> string \<Rightarrow> string list" where
  \<comment> \<open>\<^verbatim>\<open>s.split(c)\<close> for a one-character separator\<close>
  "splitOn c [] = [[]]"
| "splitOn c (x # xs) =
     (if x = c then [] # splitOn c xs
      else (case splitOn c xs of [] \<Rightarrow> [[x]] | w # ws \<Rightarrow> (x # w) # ws))"

fun splitWsFrom :: "bool \<Rightarrow> string \<Rightarrow> string list" where
  \<comment> \<open>the flag says that the previous character was whitespace, so that a run of
      whitespace is one separator\<close>
  "splitWsFrom inSep [] = [[]]"
| "splitWsFrom inSep (x # xs) =
     (if isSpace x then (if inSep then splitWsFrom True xs else [] # splitWsFrom True xs)
      else (case splitWsFrom False xs of [] \<Rightarrow> [[x]] | w # ws \<Rightarrow> (x # w) # ws))"

definition splitWs :: "string \<Rightarrow> string list" where
  \<comment> \<open>\<^verbatim>\<open>s.split(/\s+/)\<close>: a string that begins or ends with whitespace yields an
      empty first or last piece, and the empty string yields one empty piece\<close>
  "splitWs s = splitWsFrom False s"

fun join :: "string \<Rightarrow> string list \<Rightarrow> string" where
  "join sep [] = []"
| "join sep [x] = x"
| "join sep (x # y # ys) = x @ sep @ join sep (y # ys)"

definition startsWith :: "string \<Rightarrow> string \<Rightarrow> bool" where
  "startsWith s p = (take (length p) s = p)"

fun indexOfFrom :: "nat \<Rightarrow> string \<Rightarrow> string \<Rightarrow> nat option" where
  "indexOfFrom i [] p = (if p = [] then Some i else None)"
| "indexOfFrom i (x # xs) p =
     (if startsWith (x # xs) p then Some i else indexOfFrom (Suc i) xs p)"

definition indexOf :: "string \<Rightarrow> string \<Rightarrow> nat option" where
  \<comment> \<open>\<^verbatim>\<open>s.indexOf(p)\<close>, with \<open>None\<close> for \<^verbatim>\<open>-1\<close>\<close>
  "indexOf s p = indexOfFrom 0 s p"

definition includesStr :: "string \<Rightarrow> string \<Rightarrow> bool" where
  \<comment> \<open>\<^verbatim>\<open>s.includes(p)\<close>\<close>
  "includesStr s p = (indexOf s p \<noteq> None)"

definition trim :: "string \<Rightarrow> string" where
  "trim s = rev (dropWhile isSpace (rev (dropWhile isSpace s)))"

definition slice :: "nat \<Rightarrow> nat \<Rightarrow> 'a list \<Rightarrow> 'a list" where
  \<comment> \<open>\<^verbatim>\<open>xs.slice(i, j)\<close> for non-negative bounds\<close>
  "slice i j xs = take (j - i) (drop i xs)"

definition digitChar :: "int \<Rightarrow> char" where
  \<comment> \<open>the character of a digit \<open>0 \<le> d < 10\<close>\<close>
  "digitChar d = decimalDigits ! nat d"

function showDigits :: "int \<Rightarrow> string" where
  \<comment> \<open>the decimal digits of a non-negative integer\<close>
  "showDigits n =
     (if n < 10 then [digitChar n] else showDigits (n div 10) @ [digitChar (n mod 10)])"
  by pat_completeness auto
termination
  by (relation "measure (\<lambda>n. nat n)") auto

declare showDigits.simps [simp del]

definition showInt :: "int \<Rightarrow> string" where
  \<comment> \<open>\<^verbatim>\<open>String(i)\<close> for an integer\<close>
  "showInt i = (if i < 0 then CHR ''-'' # showDigits (- i) else showDigits i)"

definition padStart2 :: "string \<Rightarrow> string" where
  \<comment> \<open>\<^verbatim>\<open>s.padStart(2, "0")\<close>\<close>
  "padStart2 s = replicate (2 - length s) (CHR ''0'') @ s"

definition isDigit :: "char \<Rightarrow> bool" where
  \<comment> \<open>the class \<^verbatim>\<open>\d\<close>\<close>
  "isDigit c = (c \<in> set decimalDigits)"

definition digitValue :: "char \<Rightarrow> nat" where
  \<comment> \<open>the place of a digit character among the ten digits\<close>
  "digitValue c = length (takeWhile (\<lambda>d. d \<noteq> c) decimalDigits)"

definition parseNat :: "string \<Rightarrow> nat" where
  \<comment> \<open>\<^verbatim>\<open>parseInt(s, 10)\<close> on a string of decimal digits\<close>
  "parseNat s = foldl (\<lambda>acc c. 10 * acc + digitValue c) 0 s"

section \<open>Calendar arithmetic of \<^verbatim>\<open>Date\<close>\<close>

definition dayInMs :: int where
  "dayInMs = 24 * 60 * 60 * 1000"

definition daysFromCivil :: "int \<Rightarrow> int \<Rightarrow> int \<Rightarrow> int" where
  \<comment> \<open>days since 1970-01-01 of the proleptic Gregorian date, month \<open>1..12\<close>\<close>
  "daysFromCivil y m d =
     (let y1 = (if m \<le> 2 then y - 1 else y);
          era = y1 div 400;
          yoe = y1 - era * 400;
          doy = (153 * (if m > 2 then m - 3 else m + 9) + 2) div 5 + d - 1;
          doe = yoe * 365 + yoe div 4 - yoe div 100 + doy
      in era * 146097 + doe - 719468)"

definition civilFromDays :: "int \<Rightarrow> int \<times> int \<times> int" where
  \<comment> \<open>year, month \<open>1..12\<close> and day of month of a day number\<close>
  "civilFromDays z0 =
     (let z = z0 + 719468;
          era = z div 146097;
          doe = z - era * 146097;
          yoe = (doe - doe div 1460 + doe div 36524 - doe div 146096) div 365;
          y = yoe + era * 400;
          doy = doe - (365 * yoe + yoe div 4 - yoe div 100);
          mp = (5 * doy + 2) div 153;
          d = doy - (153 * mp + 2) div 5 + 1;
          m = (if mp < 10 then mp + 3 else mp - 9)
      in (if m \<le> 2 then y + 1 else y, m, d))"

definition getFullYear :: "int \<Rightarrow> int \<Rightarrow> int" where
  \<comment> \<open>local-time accessors: \<open>tz\<close> is the offset of local time from UTC in milliseconds\<close>
  "getFullYear tz t = fst (civilFromDays ((t + tz) div dayInMs))"

definition getMonth :: "int \<Rightarrow> int \<Rightarrow> int" where
  "getMonth tz t = fst (snd (civilFromDays ((t + tz) div dayInMs))) - 1"

definition getDate :: "int \<Rightarrow> int \<Rightarrow> int" where
  "getDate tz t = snd (snd (civilFromDays ((t + tz) div dayInMs)))"

definition Date_UTC :: "int \<Rightarrow> int \<Rightarrow> int \<Rightarrow> int" where
  \<comment> \<open>\<^verbatim>\<open>Date.UTC(year, monthIndex, day)\<close>; a year from 0 to 99 means 1900 + year\<close>
  "Date_UTC y m d =
     daysFromCivil (if 0 \<le> y \<and> y \<le> 99 then 1900 + y else y) (m + 1) d * dayInMs"

definition getUTCDay :: "int \<Rightarrow> int" where
  \<comment> \<open>0 is Sunday; 1970-01-01 was a Thursday\<close>
  "getUTCDay t = (t div dayInMs + 4) mod 7"

definition getUTCFullYear :: "int \<Rightarrow> int" where
  "getUTCFullYear t = fst (civilFromDays (t div dayInMs))"

definition getWeekNumber :: "int \<Rightarrow> int \<Rightarrow> int" where
  "getWeekNumber tz t =
     (let d = Date_UTC (getFullYear tz t) (getMonth tz t) (getDate tz t);
          dayNum = (if getUTCDay d = 0 then 7 else getUTCDay d);
          d1 = d + (4 - dayNum) * dayInMs;
          yearStart = Date_UTC (getUTCFullYear d1) 0 1
      in - ((- ((d1 - yearStart) div dayInMs + 1)) div 7))"

definition weekKey :: "int \<Rightarrow> int \<Rightarrow> string" where
  \<comment> \<open>the key of \<^verbatim>\<open>groupByWeek\<close>: the local year, \<^verbatim>\<open>-W\<close>, the week number on two digits\<close>
  "weekKey tz t = showInt (getFullYear tz t) @ ''-W'' @ padStart2 (showInt (getWeekNumber tz t))"

definition monthKey :: "int \<Rightarrow> int \<Rightarrow> string" where
  \<comment> \<open>the key of \<^verbatim>\<open>groupByMonth\<close>\<close>
  "monthKey tz t = showInt (getFullYear tz t) @ ''-'' @ padStart2 (showInt (getMonth tz t + 1))"

section \<open>The data model\<close>

datatype MemoryType = Note | Summary | Archive | Decision | Preference | Todo

datatype ImportanceLevel = Low | Medium | High | Critical

datatype AccessAction = ActSearch | ActRead | ActWrite | ActUpdate

text \<open>The interface \<^verbatim>\<open>StructuredMemory\<close>; an optional property is an \<open>option\<close>.\<close>

record StructuredMemory =
  idM :: string
  content :: string
  summary :: "string option"
  sourcePath :: string
  memoryType :: MemoryType
  importanceLevel :: ImportanceLevel
  importanceScore :: real
  tags :: "string list"
  createdAt :: int
  updatedAt :: int
  accessedAt :: "int option"
  accessCount :: int
  compressedFrom :: "string list option"
  compressionLevel :: "int option"
  relatedMemories :: "string list option"
  sourceSessionId :: "string option"
  sourceChannel :: "string option"

text \<open>
  A row of the table \<^verbatim>\<open>structured_memories\<close> (\<^verbatim>\<open>StructuredMemoryRow\<close>). The JSON text of
  \<^verbatim>\<open>compressed_from\<close> and \<^verbatim>\<open>related_memories\<close> is kept as the list it encodes.
\<close>

record MemoryRow =
  idR :: string
  contentR :: string
  summaryR :: "string option"
  source_path :: string
  memory_type :: MemoryType
  importance_level :: ImportanceLevel
  importance_score :: real
  created_at :: int
  updated_at :: int
  accessed_at :: "int option"
  access_count :: int
  compressed_from :: "string list option"
  compression_level :: int
  related_memories :: "string list option"
  source_session_id :: "string option"
  source_channel :: "string option"

record TagRow =
  tag_id :: nat
  tag_name :: string
  tag_color :: "string option"
  tag_description :: "string option"
  tag_created_at :: int
  memory_count :: int

record MemoryTagRow =
  link_memory_id :: string
  link_tag_id :: nat

record AccessLogRow =
  log_id :: nat
  log_memory_id :: string
  log_accessed_at :: int
  log_query :: "string option"
  log_action :: AccessAction

record RelationRow =
  source_id :: string
  target_id :: string
  relation_type :: string
  relation_created_at :: int

text \<open>
  The database that \<^verbatim>\<open>ensureStructuredMemorySchema\<close> creates. \<open>foreign_keys\<close> is the
  engine's switch for enforcing the schema's \<^verbatim>\<open>FOREIGN KEY\<close> clauses (with their
  \<^verbatim>\<open>ON DELETE CASCADE\<close>); \<open>tags_seq\<close> and \<open>log_seq\<close> are the \<^verbatim>\<open>AUTOINCREMENT\<close>
  counters; \<open>uuid_count\<close> counts the identifiers drawn from \<^verbatim>\<open>randomUUID\<close>.
\<close>

record Database =
  foreign_keys :: bool
  structured_memories :: "MemoryRow list"
  tagsT :: "TagRow list"
  memory_tags :: "MemoryTagRow list"
  memory_access_log :: "AccessLogRow list"
  memory_relations :: "RelationRow list"
  tags_seq :: nat
  log_seq :: nat
  uuid_count :: nat

datatype error =
    InvalidDurationFormat string
  | ForeignKeyConstraintFailed
  | UniqueConstraintFailed

text \<open>
  The configuration \<^verbatim>\<open>StructuredMemoryConfig\<close>, after the constructors have merged
  the defaults into it.
\<close>

record CompressionConfig =
  compression_enabled :: bool
  dailyToWeekly :: string
  weeklyToMonthly :: string
  archiveAfter :: string
  minMemoriesForSummary :: int

record ImportanceConfig =
  importance_enabled :: bool
  decayFactor :: real
  accessBoost :: real
  recencyBoost :: real
  manualBoost :: real

record QueryConfig =
  importanceWeight :: real
  recencyWeight :: real
  defaultLimit :: int

definition DEFAULT_compression :: CompressionConfig where
  "DEFAULT_compression =
     \<lparr>compression_enabled = True, dailyToWeekly = ''7d'', weeklyToMonthly = ''30d'',
      archiveAfter = ''90d'', minMemoriesForSummary = 5\<rparr>"

definition DEFAULT_importance :: ImportanceConfig where
  "DEFAULT_importance =
     \<lparr>importance_enabled = True, decayFactor = 95 / 100, accessBoost = 5 / 100,
      recencyBoost = 1 / 10, manualBoost = 3 / 2\<rparr>"

definition DEFAULT_query :: QueryConfig where
  "DEFAULT_query = \<lparr>importanceWeight = 3 / 10, recencyWeight = 2 / 10, defaultLimit = 10\<rparr>"

definition parseDuration :: "string \<Rightarrow> error + int" where
  \<comment> \<open>the pattern \<^verbatim>\<open>^(\d+)([dhm])$\<close>\<close>
  "parseDuration duration =
     (if duration = [] then Inl (InvalidDurationFormat duration)
      else let digits = butlast duration; unit = last duration
           in if digits \<noteq> [] \<and> list_all isDigit digits
                 \<and> (unit = CHR ''d'' \<or> unit = CHR ''h'' \<or> unit = CHR ''m'')
              then Inr (int (parseNat digits)
                        * (if unit = CHR ''d'' then 24 * 60 * 60 * 1000
                           else if unit = CHR ''h'' then 60 * 60 * 1000
                           else 60 * 1000))
              else Inl (InvalidDurationFormat duration))"

section \<open>The store: \<^verbatim>\<open>StructuredMemoryStore\<close>\<close>

text \<open>
  An operation returns its result together with the database it leaves behind: a thrown
  exception loses the result, not the writes made before it.
\<close>

type_synonym 'a outcome = "(error + 'a) \<times> Database"

definition memoryExists :: "Database \<Rightarrow> string \<Rightarrow> bool" where
  "memoryExists db i = (i \<in> idR ` set (structured_memories db))"

definition tagExists :: "Database \<Rightarrow> nat \<Rightarrow> bool" where
  "tagExists db t = (t \<in> tag_id ` set (tagsT db))"

definition getTagsForMemory :: "Database \<Rightarrow> string \<Rightarrow> string list" where
  \<comment> \<open>\<^verbatim>\<open>SELECT t.name FROM tags t JOIN memory_tags mt ON t.id = mt.tag_id WHERE mt.memory_id = ?\<close>\<close>
  "getTagsForMemory db memoryId =
     concat (map (\<lambda>l. map tag_name (filter (\<lambda>t. tag_id t = link_tag_id l) (tagsT db)))
                 (filter (\<lambda>l. link_memory_id l = memoryId) (memory_tags db)))"

definition rowToMemory :: "Database \<Rightarrow> MemoryRow \<Rightarrow> StructuredMemory" where
  "rowToMemory db row =
     \<lparr>idM = idR row, content = contentR row, summary = summaryR row,
      sourcePath = source_path row, memoryType = memory_type row,
      importanceLevel = importance_level row, importanceScore = importance_score row,
      tags = getTagsForMemory db (idR row), createdAt = created_at row,
      updatedAt = updated_at row, accessedAt = accessed_at row,
      accessCount = access_count row, compressedFrom = compressed_from row,
      compressionLevel = Some (compression_level row),
      relatedMemories = related_memories row, sourceSessionId = source_session_id row,
      sourceChannel = source_channel row\<rparr>"

definition getMemory :: "Database \<Rightarrow> string \<Rightarrow> StructuredMemory option" where
  "getMemory db i =
     (case find (\<lambda>r. idR r = i) (structured_memories db) of
        None \<Rightarrow> None
      | Some row \<Rightarrow> Some (rowToMemory db row))"

subsection \<open>\<^verbatim>\<open>setTagsForMemory\<close>\<close>

definition nextTagId :: "Database \<Rightarrow> nat" where
  \<comment> \<open>the row id an \<^verbatim>\<open>AUTOINCREMENT\<close> column gives the next inserted tag\<close>
  "nextTagId db = Suc (fold max (map tag_id (tagsT db)) (tags_seq db))"

definition getOrCreateTag :: "int \<Rightarrow> string \<Rightarrow> Database \<Rightarrow> nat \<times> Database" where
  "getOrCreateTag now tagName db =
     (case find (\<lambda>t. tag_name t = tagName) (tagsT db) of
        Some tagRow \<Rightarrow> (tag_id tagRow, db)
      | None \<Rightarrow>
          (let n = nextTagId db
           in (n, db\<lparr>tagsT := tagsT db @
                        [\<lparr>tag_id = n, tag_name = tagName, tag_color = None,
                          tag_description = None, tag_created_at = now, memory_count = 0\<rparr>],
                      tags_seq := n\<rparr>)))"

definition linkTag :: "string \<Rightarrow> nat \<Rightarrow> Database \<Rightarrow> unit outcome" where
  \<comment> \<open>\<^verbatim>\<open>INSERT OR IGNORE INTO memory_tags (memory_id, tag_id) VALUES (?, ?)\<close>\<close>
  "linkTag memoryId tagId db =
     (if \<lparr>link_memory_id = memoryId, link_tag_id = tagId\<rparr> \<in> set (memory_tags db)
      then (Inr (), db)
      else if foreign_keys db \<and> \<not> (memoryExists db memoryId \<and> tagExists db tagId)
      then (Inl ForeignKeyConstraintFailed, db)
      else (Inr (), db\<lparr>memory_tags := memory_tags db @
                          [\<lparr>link_memory_id = memoryId, link_tag_id = tagId\<rparr>]\<rparr>))"

definition updateTagCount :: "nat \<Rightarrow> Database \<Rightarrow> Database" where
  \<comment> \<open>\<^verbatim>\<open>UPDATE tags SET memory_count = (SELECT COUNT(*) FROM memory_tags WHERE tag_id = ?) WHERE id = ?\<close>\<close>
  "updateTagCount tagId db =
     db\<lparr>tagsT := map (\<lambda>t. if tag_id t = tagId
                            then t\<lparr>memory_count :=
                                    int (length (filter (\<lambda>l. link_tag_id l = tagId) (memory_tags db)))\<rparr>
                            else t)
                     (tagsT db)\<rparr>"

fun setTagsLoop :: "int \<Rightarrow> string \<Rightarrow> string list \<Rightarrow> Database \<Rightarrow> unit outcome" where
  "setTagsLoop now memoryId [] db = (Inr (), db)"
| "setTagsLoop now memoryId (tagName # rest) db =
     (case getOrCreateTag now tagName db of
        (tagId, db1) \<Rightarrow>
          (case linkTag memoryId tagId db1 of
             (Inl e, db2) \<Rightarrow> (Inl e, db2)
           | (Inr u, db2) \<Rightarrow> setTagsLoop now memoryId rest (updateTagCount tagId db2)))"

definition setTagsForMemory :: "int \<Rightarrow> string \<Rightarrow> string list \<Rightarrow> Database \<Rightarrow> unit outcome" where
  "setTagsForMemory now memoryId tagNames db =
     setTagsLoop now memoryId tagNames
       (db\<lparr>memory_tags := filter (\<lambda>l. link_memory_id l \<noteq> memoryId) (memory_tags db)\<rparr>)"

subsection \<open>\<^verbatim>\<open>createMemory\<close>\<close>

definition memoryToRow :: "StructuredMemory \<Rightarrow> MemoryRow" where
  \<comment> \<open>the values of the \<^verbatim>\<open>INSERT\<close>; the column \<^verbatim>\<open>accessed_at\<close> is not among them\<close>
  "memoryToRow m =
     \<lparr>idR = idM m, contentR = content m, summaryR = summary m, source_path = sourcePath m,
      memory_type = memoryType m, importance_level = importanceLevel m,
      importance_score = importanceScore m, created_at = createdAt m,
      updated_at = updatedAt m, accessed_at = None, access_count = accessCount m,
      compressed_from = compressedFrom m,
      compression_level = (case compressionLevel m of None \<Rightarrow> 0 | Some l \<Rightarrow> l),
      related_memories = relatedMemories m, source_session_id = sourceSessionId m,
      source_channel = sourceChannel m\<rparr>"

definition createMemory ::
  "(nat \<Rightarrow> string) \<Rightarrow> int \<Rightarrow> StructuredMemory \<Rightarrow> Database \<Rightarrow> StructuredMemory outcome" where
  \<comment> \<open>the argument's \<open>idM\<close>, \<open>createdAt\<close>, \<open>updatedAt\<close> and \<open>accessCount\<close> are overwritten,
      as the object spread does\<close>
  "createMemory gen now memory db =
     (let i = gen (uuid_count db);
          db0 = db\<lparr>uuid_count := Suc (uuid_count db)\<rparr>;
          fullMemory = memory\<lparr>idM := i, createdAt := now, updatedAt := now, accessCount := 0\<rparr>
      in if memoryExists db0 i then (Inl UniqueConstraintFailed, db0)
         else
           (let db1 = db0\<lparr>structured_memories :=
                            structured_memories db0 @ [memoryToRow fullMemory]\<rparr>
            in if tags memory \<noteq> []
               then (case setTagsForMemory now i (tags memory) db1 of
                       (Inl e, db2) \<Rightarrow> (Inl e, db2)
                     | (Inr u, db2) \<Rightarrow> (Inr fullMemory, db2))
               else (Inr fullMemory, db1)))"

subsection \<open>\<^verbatim>\<open>updateMemory\<close>\<close>

text \<open>
  The argument of \<^verbatim>\<open>updateMemory\<close>, of type
  \<^verbatim>\<open>Partial<Omit<StructuredMemory, "id" | "createdAt">>\<close>: \<open>None\<close> is \<^verbatim>\<open>undefined\<close>.
\<close>

record MemoryUpdates =
  contentU :: "string option"
  summaryU :: "string option"
  sourcePathU :: "string option"
  memoryTypeU :: "MemoryType option"
  importanceLevelU :: "ImportanceLevel option"
  importanceScoreU :: "real option"
  tagsU :: "string list option"
  updatedAtU :: "int option"
  accessedAtU :: "int option"
  accessCountU :: "int option"
  compressedFromU :: "string list option"
  compressionLevelU :: "int option"
  relatedMemoriesU :: "string list option"
  sourceSessionIdU :: "string option"
  sourceChannelU :: "string option"

definition noUpdates :: MemoryUpdates where
  "noUpdates =
     \<lparr>contentU = None, summaryU = None, sourcePathU = None, memoryTypeU = None,
      importanceLevelU = None, importanceScoreU = None, tagsU = None, updatedAtU = None,
      accessedAtU = None, accessCountU = None, compressedFromU = None,
      compressionLevelU = None, relatedMemoriesU = None, sourceSessionIdU = None,
      sourceChannelU = None\<rparr>"

text \<open>One entry of the list \<^verbatim>\<open>sets\<close>, with its value from \<^verbatim>\<open>values\<close>.\<close>

datatype Assignment =
    SetContent string
  | SetSummary string
  | SetMemoryType MemoryType
  | SetImportanceLevel ImportanceLevel
  | SetImportanceScore real
  | SetUpdatedAt int

fun assign :: "Assignment \<Rightarrow> MemoryRow \<Rightarrow> MemoryRow" where
  "assign (SetContent v) r = r\<lparr>contentR := v\<rparr>"
| "assign (SetSummary v) r = r\<lparr>summaryR := Some v\<rparr>"
| "assign (SetMemoryType v) r = r\<lparr>memory_type := v\<rparr>"
| "assign (SetImportanceLevel v) r = r\<lparr>importance_level := v\<rparr>"
| "assign (SetImportanceScore v) r = r\<lparr>importance_score := v\<rparr>"
| "assign (SetUpdatedAt v) r = r\<lparr>updated_at := v\<rparr>"

definition updateSets :: "MemoryUpdates \<Rightarrow> Assignment list" where
  \<comment> \<open>the assignments pushed before \<^verbatim>\<open>updated_at = ?\<close>\<close>
  "updateSets updates =
     (case contentU updates of None \<Rightarrow> [] | Some v \<Rightarrow> [SetContent v])
     @ (case summaryU updates of None \<Rightarrow> [] | Some v \<Rightarrow> [SetSummary v])
     @ (case memoryTypeU updates of None \<Rightarrow> [] | Some v \<Rightarrow> [SetMemoryType v])
     @ (case importanceLevelU updates of None \<Rightarrow> [] | Some v \<Rightarrow> [SetImportanceLevel v])
     @ (case importanceScoreU updates of None \<Rightarrow> [] | Some v \<Rightarrow> [SetImportanceScore v])"

definition sqlUpdateMemory :: "Assignment list \<Rightarrow> string \<Rightarrow> Database \<Rightarrow> Database" where
  \<comment> \<open>\<^verbatim>\<open>UPDATE structured_memories SET ... WHERE id = ?\<close>\<close>
  "sqlUpdateMemory sets i db =
     db\<lparr>structured_memories :=
          map (\<lambda>r. if idR r = i then fold assign sets r else r) (structured_memories db)\<rparr>"

definition updateMemory ::
  "int \<Rightarrow> string \<Rightarrow> MemoryUpdates \<Rightarrow> Database \<Rightarrow> StructuredMemory option outcome" where
  "updateMemory now i updates db =
     (case getMemory db i of
        None \<Rightarrow> (Inr None, db)
      | Some existing \<Rightarrow>
          (case (case tagsU updates of
                   None \<Rightarrow> (Inr (), db)
                 | Some tagNames \<Rightarrow> setTagsForMemory now i tagNames db) of
             (Inl e, db1) \<Rightarrow> (Inl e, db1)
           | (Inr u, db1) \<Rightarrow>
               (let sets = updateSets updates @ [SetUpdatedAt now];
                    db2 = (if length sets > 1 then sqlUpdateMemory sets i db1 else db1)
                in (Inr (getMemory db2 i), db2))))"

subsection \<open>\<^verbatim>\<open>deleteMemory\<close> and \<^verbatim>\<open>recordAccess\<close>\<close>

definition sqlDeleteMemories :: "(MemoryRow \<Rightarrow> bool) \<Rightarrow> Database \<Rightarrow> Database" where
  \<comment> \<open>\<^verbatim>\<open>DELETE FROM structured_memories WHERE ...\<close>: with foreign keys enforced, the rows of
      \<^verbatim>\<open>memory_tags\<close>, \<^verbatim>\<open>memory_access_log\<close> and \<^verbatim>\<open>memory_relations\<close> that reference a
      deleted row go with it, as the schema's \<^verbatim>\<open>ON DELETE CASCADE\<close> clauses say\<close>
  "sqlDeleteMemories cond db =
     (let gone = idR ` set (filter cond (structured_memories db));
          db1 = db\<lparr>structured_memories := filter (\<lambda>r. \<not> cond r) (structured_memories db)\<rparr>
      in if foreign_keys db
         then db1\<lparr>memory_tags := filter (\<lambda>l. link_memory_id l \<notin> gone) (memory_tags db),
                  memory_access_log :=
                    filter (\<lambda>a. log_memory_id a \<notin> gone) (memory_access_log db),
                  memory_relations :=
                    filter (\<lambda>e. source_id e \<notin> gone \<and> target_id e \<notin> gone)
                      (memory_relations db)\<rparr>
         else db1)"

definition deleteMemory :: "string \<Rightarrow> Database \<Rightarrow> bool \<times> Database" where
  "deleteMemory i db = (memoryExists db i, sqlDeleteMemories (\<lambda>r. idR r = i) db)"

definition nextLogId :: "Database \<Rightarrow> nat" where
  "nextLogId db = Suc (fold max (map log_id (memory_access_log db)) (log_seq db))"

definition recordAccess ::
  "int \<Rightarrow> string \<Rightarrow> AccessAction \<Rightarrow> string option \<Rightarrow> Database \<Rightarrow> unit outcome" where
  "recordAccess now memoryId action query db =
     (if foreign_keys db \<and> \<not> memoryExists db memoryId
      then (Inl ForeignKeyConstraintFailed, db)
      else
        (let n = nextLogId db;
             db1 = db\<lparr>memory_access_log := memory_access_log db @
                         [\<lparr>log_id = n, log_memory_id = memoryId, log_accessed_at = now,
                           log_query = query, log_action = action\<rparr>],
                       log_seq := n\<rparr>
         in (Inr (),
             db1\<lparr>structured_memories :=
                   map (\<lambda>r. if idR r = memoryId
                             then r\<lparr>access_count := access_count r + 1, accessed_at := Some now\<rparr>
                             else r)
                       (structured_memories db1)\<rparr>)))"

subsection \<open>\<^verbatim>\<open>searchMemories\<close> and \<^verbatim>\<open>getMemoriesForCompression\<close>\<close>

fun sqlLike :: "string \<Rightarrow> string \<Rightarrow> bool" where
  \<comment> \<open>\<^verbatim>\<open>text LIKE pattern\<close>, pattern first: \<^verbatim>\<open>%\<close> is any run of characters, \<^verbatim>\<open>_\<close> any one
      character, and ASCII letters match without regard to case\<close>
  "sqlLike [] s = (s = [])"
| "sqlLike (p # ps) s =
     (if p = CHR ''%''
      then sqlLike ps s \<or> (case s of [] \<Rightarrow> False | c # cs \<Rightarrow> sqlLike (p # ps) cs)
      else (case s of
              [] \<Rightarrow> False
            | c # cs \<Rightarrow> (p = CHR ''_'' \<or> lowerChar p = lowerChar c) \<and> sqlLike ps cs))"

definition sqlLimit :: "int \<Rightarrow> int \<Rightarrow> 'a list \<Rightarrow> 'a list" where
  \<comment> \<open>\<^verbatim>\<open>LIMIT ? OFFSET ?\<close>: a negative limit is no limit, a negative offset is none\<close>
  "sqlLimit limit offset rows =
     (let rest = drop (nat offset) rows in if limit < 0 then rest else take (nat limit) rest)"

datatype OrderBy = ByImportance | ByRecency | ByRelevance

record SearchParams =
  queryP :: "string option"
  tagsP :: "string list option"
  memoryTypeP :: "MemoryType option"
  importanceLevelP :: "ImportanceLevel option"
  limitP :: "int option"
  offsetP :: "int option"
  orderByP :: "OrderBy option"

definition hasTagIn :: "Database \<Rightarrow> string list \<Rightarrow> MemoryRow \<Rightarrow> bool" where
  \<comment> \<open>the two joins with \<^verbatim>\<open>t.name IN (...)\<close>\<close>
  "hasTagIn db names r =
     (\<exists>l \<in> set (memory_tags db). link_memory_id l = idR r \<and>
        (\<exists>t \<in> set (tagsT db). tag_id t = link_tag_id l \<and> tag_name t \<in> set names))"

definition searchMemories :: "SearchParams \<Rightarrow> Database \<Rightarrow> StructuredMemory list" where
  \<comment> \<open>rows that tie on the sort keys stay in table order\<close>
  "searchMemories params db =
     (let limit = (case limitP params of None \<Rightarrow> 10 | Some l \<Rightarrow> l);
          offset = (case offsetP params of None \<Rightarrow> 0 | Some k \<Rightarrow> k);
          orderBy = (case orderByP params of None \<Rightarrow> ByRelevance | Some ob \<Rightarrow> ob);
          cond = (\<lambda>r.
            (case tagsP params of
               None \<Rightarrow> True
             | Some names \<Rightarrow> names = [] \<or> hasTagIn db names r)
            \<and> (case memoryTypeP params of None \<Rightarrow> True | Some ty \<Rightarrow> memory_type r = ty)
            \<and> (case importanceLevelP params of
                  None \<Rightarrow> True
                | Some lv \<Rightarrow> importance_level r = lv)
            \<and> (case queryP params of
                  None \<Rightarrow> True
                | Some q \<Rightarrow>
                    q = [] \<or> sqlLike (''%'' @ q @ ''%'') (contentR r)
                    \<or> (case summaryR r of
                          None \<Rightarrow> False
                        | Some sm \<Rightarrow> sqlLike (''%'' @ q @ ''%'') sm)));
          rows = filter cond (structured_memories db);
          ordered = (case orderBy of
                       ByImportance \<Rightarrow> sort_key (\<lambda>r. - importance_score r) rows
                     | ByRecency \<Rightarrow> sort_key (\<lambda>r. - created_at r) rows
                     | ByRelevance \<Rightarrow>
                         sort_key (\<lambda>r. - importance_score r)
                           (sort_key (\<lambda>r. - created_at r) rows))
      in map (rowToMemory db) (sqlLimit limit offset ordered))"

definition getMemoriesForCompression ::
  "int \<Rightarrow> int \<Rightarrow> int \<Rightarrow> Database \<Rightarrow> StructuredMemory list" where
  \<comment> \<open>\<^verbatim>\<open>WHERE created_at < ? AND compression_level <= ? AND memory_type != 'summary'
      ORDER BY created_at ASC LIMIT ?\<close>\<close>
  "getMemoriesForCompression olderThan level limit db =
     map (rowToMemory db)
       (sqlLimit limit 0
          (sort_key created_at
             (filter (\<lambda>r. created_at r < olderThan \<and> compression_level r \<le> level
                           \<and> memory_type r \<noteq> Summary)
                (structured_memories db))))"

subsection \<open>\<^verbatim>\<open>recalculateImportance\<close>\<close>

definition Math_pow :: "real \<Rightarrow> real \<Rightarrow> real" where
  \<comment> \<open>\<^verbatim>\<open>Math.pow\<close> where it is a finite number: for a positive base, and for base 0 with
      a non-negative exponent\<close>
  "Math_pow x y = (if y = 0 then 1 else x powr y)"

definition clamp01 :: "real \<Rightarrow> real" where
  \<comment> \<open>\<^verbatim>\<open>Math.min(1, Math.max(0, x))\<close>\<close>
  "clamp01 x = min 1 (max 0 x)"

definition ageInDays :: "int \<Rightarrow> int \<Rightarrow> real" where
  "ageInDays now created = real_of_int (now - created) / real_of_int dayInMs"

definition newScore :: "ImportanceConfig \<Rightarrow> int \<Rightarrow> MemoryRow \<Rightarrow> real" where
  \<comment> \<open>the body of the loop of \<^verbatim>\<open>recalculateImportance\<close>\<close>
  "newScore cfg now mem =
     (let age = ageInDays now (created_at mem);
          decayedScore = importance_score mem * Math_pow (decayFactor cfg) age;
          accessBoostV = real_of_int (access_count mem) * accessBoost cfg;
          recencyBoostV = max 0 (1 - age / 30) * recencyBoost cfg
      in clamp01 (decayedScore + accessBoostV + recencyBoostV))"

definition sqlSetScore :: "real \<Rightarrow> string \<Rightarrow> Database \<Rightarrow> Database" where
  \<comment> \<open>\<^verbatim>\<open>UPDATE structured_memories SET importance_score = ? WHERE id = ?\<close>\<close>
  "sqlSetScore v i db =
     db\<lparr>structured_memories :=
          map (\<lambda>r. if idR r = i then r\<lparr>importance_score := v\<rparr> else r)
            (structured_memories db)\<rparr>"

definition recalculateImportance :: "ImportanceConfig \<Rightarrow> int \<Rightarrow> Database \<Rightarrow> Database" where
  "recalculateImportance cfg now db =
     (if \<not> importance_enabled cfg then db
      else fold (\<lambda>mem d. sqlSetScore (newScore cfg now mem) (idR mem) d)
             (structured_memories db) db)"

section \<open>The compression engine: \<^verbatim>\<open>MemoryCompressionEngine\<close>\<close>

definition nl :: string where
  "nl = [CHR 0x0A]"

datatype SummaryLevel = Weekly | Monthly

definition stripHeading :: "string \<Rightarrow> string" where
  \<comment> \<open>\<^verbatim>\<open>header.replace(/^#+\s*/, "")\<close>\<close>
  "stripHeading h =
     (if startsWith h ''#'' then dropWhile isSpace (dropWhile (\<lambda>c. c = CHR ''#'') h) else h)"

definition generateSummary :: "StructuredMemory list \<Rightarrow> SummaryLevel \<Rightarrow> string option" where
  "generateSummary memories level =
     (let contents = join (nl @ nl @ ''---'' @ nl @ nl) (map content memories);
          lines = splitOn (CHR 0x0A) contents;
          headers = filter (\<lambda>l. startsWith l ''##'' \<or> startsWith l ''###'') lines;
          s0 = ''# '' @ (if level = Weekly then ''Weekly'' else ''Monthly'') @ '' Summary'' @ nl @ nl;
          s1 = s0 @ ''Generated from '' @ showInt (int (length memories)) @ '' memories.'' @ nl @ nl;
          s2 = (if length headers > 0
                then s1 @ ''## Key Topics'' @ nl @ nl
                     @ concat (map (\<lambda>header. ''- '' @ stripHeading header @ nl) (slice 0 10 headers))
                else s1);
          importantLines =
            filter (\<lambda>l. includesStr (toLowerCase l) ''important''
                         \<or> includesStr (toLowerCase l) ''decision''
                         \<or> includesStr (toLowerCase l) ''conclusion''
                         \<or> includesStr (toLowerCase l) ''action item'') lines;
          s3 = (if length importantLines > 0
                then s2 @ nl @ ''## Important Items'' @ nl @ nl
                     @ concat (map (\<lambda>line. ''- '' @ trim line @ nl) (slice 0 5 importantLines))
                else s2)
      in Some s3)"

definition calculateAverageImportance :: "StructuredMemory list \<Rightarrow> ImportanceLevel" where
  "calculateAverageImportance memories =
     (let avgScore = sum_list (map importanceScore memories) / real (length memories)
      in if avgScore > 8 / 10 then Critical
         else if avgScore > 6 / 10 then High
         else if avgScore > 4 / 10 then Medium
         else Low)"

definition Math_max :: "real list \<Rightarrow> real" where
  \<comment> \<open>\<^verbatim>\<open>Math.max(...xs)\<close> of a non-empty list. The empty list, for which JavaScript
      answers \<^verbatim>\<open>-Infinity\<close>, is never passed: a group holds the record that created it.\<close>
  "Math_max xs = (case xs of [] \<Rightarrow> 0 | x # rest \<Rightarrow> fold max rest x)"

fun groupInsert :: "string \<Rightarrow> 'a \<Rightarrow> (string \<times> 'a list) list \<Rightarrow> (string \<times> 'a list) list" where
  \<comment> \<open>\<^verbatim>\<open>if (!groups.has(key)) groups.set(key, []); groups.get(key).push(memory)\<close> on a
      \<^verbatim>\<open>Map\<close>, which iterates in the order the keys were first set\<close>
  "groupInsert k v [] = [(k, [v])]"
| "groupInsert k v ((k', vs) # rest) =
     (if k' = k then (k', vs @ [v]) # rest else (k', vs) # groupInsert k v rest)"

fun groupByWeekInto ::
  "int \<Rightarrow> StructuredMemory list \<Rightarrow> (string \<times> StructuredMemory list) list
     \<Rightarrow> (string \<times> StructuredMemory list) list" where
  \<comment> \<open>the loop of \<^verbatim>\<open>groupByWeek\<close> over the memories, from the groups made so far\<close>
  "groupByWeekInto tz [] groups = groups"
| "groupByWeekInto tz (memory # rest) groups =
     groupByWeekInto tz rest (groupInsert (weekKey tz (createdAt memory)) memory groups)"

definition groupByWeek ::
  "int \<Rightarrow> StructuredMemory list \<Rightarrow> (string \<times> StructuredMemory list) list" where
  "groupByWeek tz memories = groupByWeekInto tz memories []"

fun groupByMonthInto ::
  "int \<Rightarrow> StructuredMemory list \<Rightarrow> (string \<times> StructuredMemory list) list
     \<Rightarrow> (string \<times> StructuredMemory list) list" where
  \<comment> \<open>the loop of \<^verbatim>\<open>groupByMonth\<close>\<close>
  "groupByMonthInto tz [] groups = groups"
| "groupByMonthInto tz (memory # rest) groups =
     groupByMonthInto tz rest (groupInsert (monthKey tz (createdAt memory)) memory groups)"

definition groupByMonth ::
  "int \<Rightarrow> StructuredMemory list \<Rightarrow> (string \<times> StructuredMemory list) list" where
  "groupByMonth tz memories = groupByMonthInto tz memories []"

definition blankMemory :: StructuredMemory where
  \<comment> \<open>an object literal with no property set; \<^verbatim>\<open>createMemory\<close> overwrites the identifier,
      the two timestamps and the access count\<close>
  "blankMemory =
     \<lparr>idM = [], content = [], summary = None, sourcePath = [], memoryType = Note,
      importanceLevel = Medium, importanceScore = 0, tags = [], createdAt = 0, updatedAt = 0,
      accessedAt = None, accessCount = 0, compressedFrom = None, compressionLevel = None,
      relatedMemories = None, sourceSessionId = None, sourceChannel = None\<rparr>"

fun markCompressed :: "int \<Rightarrow> int \<Rightarrow> StructuredMemory list \<Rightarrow> Database \<Rightarrow> unit outcome" where
  \<comment> \<open>\<^verbatim>\<open>for (const mem of memories) this.store.updateMemory(mem.id, { compressionLevel })\<close>\<close>
  "markCompressed now level [] db = (Inr (), db)"
| "markCompressed now level (mem # rest) db =
     (case updateMemory now (idM mem) (noUpdates\<lparr>compressionLevelU := Some level\<rparr>) db of
        (Inl e, db1) \<Rightarrow> (Inl e, db1)
      | (Inr r, db1) \<Rightarrow> markCompressed now level rest db1)"

definition weeklySummaryMemory ::
  "string \<Rightarrow> StructuredMemory list \<Rightarrow> string \<Rightarrow> StructuredMemory" where
  \<comment> \<open>the object that \<^verbatim>\<open>compressToWeekly\<close> passes to \<^verbatim>\<open>createMemory\<close>\<close>
  "weeklySummaryMemory key weekMemories summaryText =
     blankMemory\<lparr>content := summaryText,
       sourcePath := ''memory/summaries/week-'' @ key @ ''.md'',
       memoryType := Summary,
       importanceLevel := calculateAverageImportance weekMemories,
       importanceScore := Math_max (map importanceScore weekMemories),
       tags := [''weekly-summary'', ''auto-generated''],
       compressedFrom := Some (map idM weekMemories),
       compressionLevel := Some 1\<rparr>"

definition monthlySummaryMemory ::
  "string \<Rightarrow> StructuredMemory list \<Rightarrow> string \<Rightarrow> StructuredMemory" where
  \<comment> \<open>the object that \<^verbatim>\<open>compressToMonthly\<close> passes to \<^verbatim>\<open>createMemory\<close>\<close>
  "monthlySummaryMemory key monthMemories summaryText =
     blankMemory\<lparr>content := summaryText,
       sourcePath := ''memory/summaries/month-'' @ key @ ''.md'',
       memoryType := Summary,
       importanceLevel := High,
       importanceScore := Math_max (map importanceScore monthMemories),
       tags := [''monthly-summary'', ''auto-generated''],
       compressedFrom := Some (map idM monthMemories),
       compressionLevel := Some 2\<rparr>"

text \<open>
  One group of the weekly stage: the body of the \<^verbatim>\<open>for\<close> loop of \<^verbatim>\<open>compressToWeekly\<close>,
  with its \<^verbatim>\<open>try\<close>/\<^verbatim>\<open>catch\<close>. The result is the increment of \<^verbatim>\<open>created\<close> and of
  \<^verbatim>\<open>errors\<close>.
\<close>

definition weeklyGroup ::
  "CompressionConfig \<Rightarrow> (nat \<Rightarrow> string) \<Rightarrow> int \<Rightarrow> string \<times> StructuredMemory list
     \<Rightarrow> Database \<Rightarrow> (nat \<times> nat) \<times> Database" where
  "weeklyGroup cfg gen now grp db =
     (case grp of (key, weekMemories) \<Rightarrow>
        if int (length weekMemories) < minMemoriesForSummary cfg then ((0, 0), db)
        else
          (case generateSummary weekMemories Weekly of
             None \<Rightarrow> ((0, 0), db)
           | Some summaryText \<Rightarrow>
               if summaryText = [] then ((0, 0), db)
               else
                 (case createMemory gen now
                         (weeklySummaryMemory key weekMemories summaryText) db of
                    (Inl e, db1) \<Rightarrow> ((0, 1), db1)
                  | (Inr summaryMemory, db1) \<Rightarrow>
                      (case markCompressed now 1 weekMemories db1 of
                         (Inl e, db2) \<Rightarrow> ((1, 1), db2)
                       | (Inr u, db2) \<Rightarrow> ((1, 0), db2)))))"

definition monthlyGroup ::
  "(nat \<Rightarrow> string) \<Rightarrow> int \<Rightarrow> string \<times> StructuredMemory list
     \<Rightarrow> Database \<Rightarrow> (nat \<times> nat) \<times> Database" where
  \<comment> \<open>the body of the loop of \<^verbatim>\<open>compressToMonthly\<close>\<close>
  "monthlyGroup gen now grp db =
     (case grp of (key, monthMemories) \<Rightarrow>
        if length monthMemories < 2 then ((0, 0), db)
        else
          (case generateSummary monthMemories Monthly of
             None \<Rightarrow> ((0, 0), db)
           | Some summaryText \<Rightarrow>
               if summaryText = [] then ((0, 0), db)
               else
                 (case createMemory gen now
                         (monthlySummaryMemory key monthMemories summaryText) db of
                    (Inl e, db1) \<Rightarrow> ((0, 1), db1)
                  | (Inr summaryMemory, db1) \<Rightarrow>
                      (case markCompressed now 2 monthMemories db1 of
                         (Inl e, db2) \<Rightarrow> ((1, 1), db2)
                       | (Inr u, db2) \<Rightarrow> ((1, 0), db2)))))"

fun forGroups ::
  "('g \<Rightarrow> Database \<Rightarrow> (nat \<times> nat) \<times> Database) \<Rightarrow> 'g list \<Rightarrow> nat \<times> nat \<Rightarrow> Database
     \<Rightarrow> (nat \<times> nat) \<times> Database" where
  \<comment> \<open>a loop that adds up the two counters of its body\<close>
  "forGroups body [] acc db = (acc, db)"
| "forGroups body (g # gs) acc db =
     (case body g db of
        ((c, e), db1) \<Rightarrow> forGroups body gs (fst acc + c, snd acc + e) db1)"

definition weeklySelection :: "int \<Rightarrow> Database \<Rightarrow> StructuredMemory list" where
  \<comment> \<open>the records \<^verbatim>\<open>compressToWeekly\<close> reads, \<open>minAge\<close> being the parsed \<^verbatim>\<open>dailyToWeekly\<close>\<close>
  "weeklySelection cutoff db = getMemoriesForCompression cutoff 0 1000 db"

definition monthlySelection :: "int \<Rightarrow> Database \<Rightarrow> StructuredMemory list" where
  "monthlySelection cutoff db = getMemoriesForCompression cutoff 1 1000 db"

definition archiveSelection :: "int \<Rightarrow> Database \<Rightarrow> StructuredMemory list" where
  "archiveSelection cutoff db = getMemoriesForCompression cutoff 2 1000 db"

definition compressToWeekly ::
  "CompressionConfig \<Rightarrow> (nat \<Rightarrow> string) \<Rightarrow> int \<Rightarrow> int \<Rightarrow> Database \<Rightarrow> (nat \<times> nat) outcome" where
  \<comment> \<open>the result is the pair of \<^verbatim>\<open>created\<close> and \<^verbatim>\<open>errors\<close>\<close>
  "compressToWeekly cfg gen tz now db =
     (case parseDuration (dailyToWeekly cfg) of
        Inl e \<Rightarrow> (Inl e, db)
      | Inr minAge \<Rightarrow>
          (let cutoff = now - minAge;
               memories = weeklySelection cutoff db;
               weeklyGroups = groupByWeek tz memories
           in case forGroups (weeklyGroup cfg gen now) weeklyGroups (0, 0) db of
                (counts, db1) \<Rightarrow> (Inr counts, db1)))"

definition compressToMonthly ::
  "CompressionConfig \<Rightarrow> (nat \<Rightarrow> string) \<Rightarrow> int \<Rightarrow> int \<Rightarrow> Database \<Rightarrow> (nat \<times> nat) outcome" where
  "compressToMonthly cfg gen tz now db =
     (case parseDuration (weeklyToMonthly cfg) of
        Inl e \<Rightarrow> (Inl e, db)
      | Inr minAge \<Rightarrow>
          (let cutoff = now - minAge;
               memories = monthlySelection cutoff db;
               monthlyGroups = groupByMonth tz memories
           in case forGroups (monthlyGroup gen now) monthlyGroups (0, 0) db of
                (counts, db1) \<Rightarrow> (Inr counts, db1)))"

definition archiveOne :: "int \<Rightarrow> int \<Rightarrow> StructuredMemory \<Rightarrow> Database \<Rightarrow> (nat \<times> nat) \<times> Database" where
  \<comment> \<open>the body of the loop of \<^verbatim>\<open>archiveOldMemories\<close>: the increments of \<^verbatim>\<open>archived\<close> and
      of \<^verbatim>\<open>errors\<close>. \<^verbatim>\<open>memory.accessedAt && ...\<close> is false for an absent or zero time.\<close>
  "archiveOne now cutoff memory db =
     (if (case accessedAt memory of None \<Rightarrow> False | Some a \<Rightarrow> a \<noteq> 0 \<and> a > cutoff)
      then ((0, 0), db)
      else
        (case updateMemory now (idM memory) (noUpdates\<lparr>memoryTypeU := Some Archive\<rparr>) db of
           (Inl e, db1) \<Rightarrow> ((0, 1), db1)
         | (Inr r, db1) \<Rightarrow> ((1, 0), db1)))"

definition archiveOldMemories ::
  "CompressionConfig \<Rightarrow> int \<Rightarrow> Database \<Rightarrow> (nat \<times> nat) outcome" where
  \<comment> \<open>the result is the pair of \<^verbatim>\<open>archived\<close> and \<^verbatim>\<open>errors\<close>\<close>
  "archiveOldMemories cfg now db =
     (case parseDuration (archiveAfter cfg) of
        Inl e \<Rightarrow> (Inl e, db)
      | Inr minAge \<Rightarrow>
          (let cutoff = now - minAge;
               memories = archiveSelection cutoff db
           in case forGroups (archiveOne now cutoff) memories (0, 0) db of
                (counts, db1) \<Rightarrow> (Inr counts, db1)))"

record CompressionResult =
  created :: nat
  archived :: nat
  errors :: nat

definition compress ::
  "CompressionConfig \<Rightarrow> (nat \<Rightarrow> string) \<Rightarrow> int \<Rightarrow> int \<Rightarrow> Database
     \<Rightarrow> CompressionResult \<times> Database" where
  \<comment> \<open>the three stages in one \<^verbatim>\<open>try\<close>: a stage that throws adds one error and ends the run\<close>
  "compress cfg gen tz now db =
     (if \<not> compression_enabled cfg then (\<lparr>created = 0, archived = 0, errors = 0\<rparr>, db)
      else
        (case compressToWeekly cfg gen tz now db of
           (Inl e, db1) \<Rightarrow> (\<lparr>created = 0, archived = 0, errors = 1\<rparr>, db1)
         | (Inr (c1, e1), db1) \<Rightarrow>
             (case compressToMonthly cfg gen tz now db1 of
                (Inl e, db2) \<Rightarrow> (\<lparr>created = c1, archived = 0, errors = e1 + 1\<rparr>, db2)
              | (Inr (c2, e2), db2) \<Rightarrow>
                  (case archiveOldMemories cfg now db2 of
                     (Inl e, db3) \<Rightarrow>
                       (\<lparr>created = c1 + c2, archived = 0, errors = e1 + e2 + 1\<rparr>, db3)
                   | (Inr (a3, e3), db3) \<Rightarrow>
                       (\<lparr>created = c1 + c2, archived = a3, errors = e1 + e2 + e3\<rparr>, db3)))))"

section \<open>The markdown synchroniser: \<^verbatim>\<open>MarkdownSyncManager\<close>\<close>

definition calculateSimilarity :: "string \<Rightarrow> string \<Rightarrow> real" where
  \<comment> \<open>a \<^verbatim>\<open>Set\<close> of strings is the list of its elements in insertion order\<close>
  "calculateSimilarity a b =
     (let aWords = remdups (splitWs (toLowerCase a));
          bWords = remdups (splitWs (toLowerCase b));
          intersection = filter (\<lambda>x. x \<in> set bWords) aWords
      in real (length intersection) / real (max (length aWords) (length bWords)))"

definition findSectionByContent :: "StructuredMemory \<Rightarrow> string \<Rightarrow> StructuredMemory option" where
  "findSectionByContent existing text =
     (let similarity = calculateSimilarity (content existing) text
      in if similarity > 7 / 10 then Some existing else None)"

record Section =
  sectionContent :: string
  sectionType :: MemoryType
  sectionTags :: "string list"

definition isWordChar :: "char \<Rightarrow> bool" where
  \<comment> \<open>the class \<^verbatim>\<open>\w\<close>\<close>
  "isWordChar c = (c \<in> set (upperLetters @ lowerLetters @ decimalDigits @ ''_''))"

fun extractTagsFromHeader :: "string \<Rightarrow> string list" where
  \<comment> \<open>the matches of \<^verbatim>\<open>/#(\w+)/g\<close> without their \<^verbatim>\<open>#\<close>. After a match the scan goes on
      behind the word; going on behind the \<^verbatim>\<open>#\<close> finds the same matches, as no word
      character is a \<^verbatim>\<open>#\<close>.\<close>
  "extractTagsFromHeader [] = []"
| "extractTagsFromHeader (c # cs) =
     (if c = CHR ''#'' \<and> takeWhile isWordChar cs \<noteq> []
      then takeWhile isWordChar cs # extractTagsFromHeader cs
      else extractTagsFromHeader cs)"

definition inferMemoryType :: "string \<Rightarrow> string \<Rightarrow> MemoryType" where
  "inferMemoryType header srcPath =
     (let lower = toLowerCase header
      in if includesStr lower ''decision'' \<or> includesStr lower ''decided'' then Decision
         else if includesStr lower ''todo'' \<or> includesStr lower ''task'' then Todo
         else if includesStr lower ''preference'' \<or> includesStr lower ''like'' then Preference
         else if includesStr lower ''summary'' \<or> includesStr lower ''overview'' then Summary
         else if includesStr srcPath ''archive'' then Archive
         else Note)"

text \<open>
  The state of the loop of \<^verbatim>\<open>parseMarkdownSections\<close>: the sections found, the lines of
  the current section, its tags and its type.
\<close>

type_synonym parseState = "Section list \<times> string list \<times> string list \<times> MemoryType"

definition flushSection :: "parseState \<Rightarrow> parseState" where
  "flushSection st =
     (case st of (sections, currentSection, currentTags, currentType) \<Rightarrow>
        (let text = trim (join nl currentSection)
         in (if length currentSection > 0 \<and> length text > 50
             then sections @ [\<lparr>sectionContent = text, sectionType = currentType,
                                sectionTags = currentTags\<rparr>]
             else sections,
             [], currentTags, currentType)))"

definition parseLine :: "string \<Rightarrow> parseState \<Rightarrow> string \<Rightarrow> parseState" where
  "parseLine srcPath st line =
     (case (if startsWith line ''## '' \<or> startsWith line ''### ''
            then (case flushSection st of
                    (sections, currentSection, currentTags, currentType) \<Rightarrow>
                      (sections, currentSection, extractTagsFromHeader line,
                       inferMemoryType line srcPath))
            else st) of
        (sections, currentSection, currentTags, currentType) \<Rightarrow>
          (sections, currentSection @ [line], currentTags, currentType))"

definition parseMarkdownSections :: "string \<Rightarrow> string \<Rightarrow> Section list" where
  "parseMarkdownSections text srcPath =
     (case flushSection (foldl (parseLine srcPath) ([], [], [], Note) (splitOn (CHR 0x0A) text)) of
        (sections, currentSection, currentTags, currentType) \<Rightarrow>
          if length sections = 0 \<and> length (trim text) > 50
          then [\<lparr>sectionContent = trim text, sectionType = inferMemoryType [] srcPath,
                  sectionTags = []\<rparr>]
          else sections)"

definition getMemoryBySourcePath :: "Database \<Rightarrow> string \<Rightarrow> StructuredMemory option" where
  \<comment> \<open>\<^verbatim>\<open>SELECT * FROM structured_memories WHERE source_path = ? LIMIT 1\<close>, the first row in
      table order, then \<^verbatim>\<open>getMemory\<close> of its identifier\<close>
  "getMemoryBySourcePath db srcPath =
     (case find (\<lambda>r. source_path r = srcPath) (structured_memories db) of
        None \<Rightarrow> None
      | Some row \<Rightarrow> getMemory db (idR row))"

definition sectionMemory :: "string \<Rightarrow> Section \<Rightarrow> StructuredMemory" where
  \<comment> \<open>the argument of \<^verbatim>\<open>createMemory\<close> for a parsed section\<close>
  "sectionMemory srcPath section =
     blankMemory\<lparr>content := sectionContent section, sourcePath := srcPath,
       memoryType := sectionType section, importanceLevel := Medium,
       importanceScore := 5 / 10, tags := sectionTags section\<rparr>"

datatype SectionAction = UpdatedInPlace string | InsertedNew string

definition syncSection ::
  "(nat \<Rightarrow> string) \<Rightarrow> int \<Rightarrow> string \<Rightarrow> StructuredMemory \<Rightarrow> Section \<Rightarrow> Database
     \<Rightarrow> SectionAction outcome" where
  \<comment> \<open>the body of the loop over the sections of a file that the store already knows; the
      result names the record written\<close>
  "syncSection gen now srcPath existing section db =
     (case findSectionByContent existing (sectionContent section) of
        Some existingSection \<Rightarrow>
          (case updateMemory now (idM existingSection)
                  (noUpdates\<lparr>contentU := Some (sectionContent section),
                             memoryTypeU := Some (sectionType section)\<rparr>) db of
             (Inl e, db1) \<Rightarrow> (Inl e, db1)
           | (Inr r, db1) \<Rightarrow> (Inr (UpdatedInPlace (idM existingSection)), db1))
      | None \<Rightarrow>
          (case createMemory gen now (sectionMemory srcPath section) db of
             (Inl e, db1) \<Rightarrow> (Inl e, db1)
           | (Inr m, db1) \<Rightarrow> (Inr (InsertedNew (idM m)), db1)))"

fun forSections ::
  "(Section \<Rightarrow> Database \<Rightarrow> 'a outcome) \<Rightarrow> Section list \<Rightarrow> Database \<Rightarrow> unit outcome" where
  \<comment> \<open>a loop that the first exception ends\<close>
  "forSections body [] db = (Inr (), db)"
| "forSections body (section # rest) db =
     (case body section db of
        (Inl e, db1) \<Rightarrow> (Inl e, db1)
      | (Inr r, db1) \<Rightarrow> forSections body rest db1)"

record MemoryFileEntry =
  path :: string
  absPath :: string
  mtimeMs :: real

datatype SyncStatus = Added | Updated | Unchanged

definition syncFile ::
  "(nat \<Rightarrow> string) \<Rightarrow> int \<Rightarrow> MemoryFileEntry \<Rightarrow> string \<Rightarrow> Database \<Rightarrow> SyncStatus outcome" where
  \<comment> \<open>\<open>text\<close> is what \<^verbatim>\<open>fs.readFile(entry.absPath, "utf-8")\<close> returns\<close>
  "syncFile gen now entry text db =
     (let existing = getMemoryBySourcePath db (path entry)
      in if (case existing of
               None \<Rightarrow> False
             | Some e \<Rightarrow> real_of_int (updatedAt e) \<ge> mtimeMs entry)
         then (Inr Unchanged, db)
         else
           (let sections = parseMarkdownSections text (path entry)
            in case existing of
                 Some e \<Rightarrow>
                   (case forSections (syncSection gen now (path entry) e) sections db of
                      (Inl err, db1) \<Rightarrow> (Inl err, db1)
                    | (Inr u, db1) \<Rightarrow> (Inr Updated, db1))
               | None \<Rightarrow>
                   (case forSections
                           (\<lambda>section. createMemory gen now (sectionMemory (path entry) section))
                           sections db of
                      (Inl err, db1) \<Rightarrow> (Inl err, db1)
                    | (Inr u, db1) \<Rightarrow> (Inr Added, db1))))"

section \<open>The backend: \<^verbatim>\<open>StructuredMemoryBackend\<close>\<close>

definition calculateRelevanceScore ::
  "QueryConfig \<Rightarrow> int \<Rightarrow> StructuredMemory \<Rightarrow> string \<Rightarrow> real" where
  "calculateRelevanceScore cfg now memory query =
     (let score0 = importanceScore memory * importanceWeight cfg;
          age = ageInDays now (createdAt memory);
          recencyScore = max 0 (1 - age / 30) * recencyWeight cfg;
          queryWords = splitWs (toLowerCase query);
          contentLower = toLowerCase (content memory);
          matchCount = length (filter (\<lambda>word. includesStr contentLower word) queryWords);
          textScore = (real matchCount / real (length queryWords))
                      * (1 - importanceWeight cfg - recencyWeight cfg)
      in clamp01 (score0 + recencyScore + textScore))"

definition extractSnippet :: "string \<Rightarrow> string \<Rightarrow> string" where
  \<comment> \<open>\<open>start\<close> is \<^verbatim>\<open>Math.max(0, matchIndex - contextBefore)\<close>: subtraction of naturals
      stops at 0\<close>
  "extractSnippet text query =
     (let maxSnippetLength = 700
      in if length text \<le> maxSnippetLength then text
         else
           (case indexOf (toLowerCase text) (toLowerCase query) of
              None \<Rightarrow> slice 0 maxSnippetLength text @ ''...''
            | Some matchIndex \<Rightarrow>
                (let contextBefore = 200;
                     contextAfter = maxSnippetLength - contextBefore;
                     start = matchIndex - contextBefore;
                     stop = min (length text) (matchIndex + length query + contextAfter);
                     snippet = slice start stop text
                 in (if start > 0 then ''...'' else []) @ snippet
                    @ (if stop < length text then ''...'' else []))))"

record MemorySearchResult =
  resultPath :: string
  startLine :: nat
  endLine :: nat
  score :: real
  snippet :: string
  source :: string

definition toSearchResult ::
  "QueryConfig \<Rightarrow> int \<Rightarrow> string \<Rightarrow> StructuredMemory \<Rightarrow> MemorySearchResult" where
  \<comment> \<open>the function mapped over the memories found\<close>
  "toSearchResult cfg now query memory =
     \<lparr>resultPath = sourcePath memory, startLine = 1,
      endLine = min (length (splitOn (CHR 0x0A) (content memory))) 20,
      score = calculateRelevanceScore cfg now memory query,
      snippet = extractSnippet (content memory) query, source = ''memory''\<rparr>"

definition sliceTo :: "int \<Rightarrow> 'a list \<Rightarrow> 'a list" where
  \<comment> \<open>\<^verbatim>\<open>xs.slice(0, n)\<close>: a negative \<open>n\<close> counts from the end\<close>
  "sliceTo n xs = (if n < 0 then take (nat (int (length xs) + n)) xs else take (nat n) xs)"

definition searchedMemories :: "string \<Rightarrow> int \<Rightarrow> Database \<Rightarrow> StructuredMemory list" where
  \<comment> \<open>the call of \<^verbatim>\<open>searchMemories\<close> that \<^verbatim>\<open>search\<close> makes\<close>
  "searchedMemories query maxResults db =
     searchMemories \<lparr>queryP = Some query, tagsP = None, memoryTypeP = None,
                     importanceLevelP = None, limitP = Some maxResults, offsetP = None,
                     orderByP = Some ByRelevance\<rparr> db"

definition search ::
  "QueryConfig \<Rightarrow> int \<Rightarrow> bool \<Rightarrow> string \<Rightarrow> int option \<Rightarrow> Database
     \<Rightarrow> MemorySearchResult list outcome" where
  \<comment> \<open>\<open>isClosed\<close> is the backend's flag \<^verbatim>\<open>closed\<close>; the sort by descending score is stable\<close>
  "search cfg now isClosed query maxResultsOpt db =
     (if isClosed then (Inr [], db)
      else
        (let maxResults = (case maxResultsOpt of None \<Rightarrow> 10 | Some n \<Rightarrow> n)
         in case recordAccess now ''search-query'' ActSearch (Some query) db of
              (Inl e, db1) \<Rightarrow> (Inl e, db1)
            | (Inr u, db1) \<Rightarrow>
                (let memories = searchedMemories query maxResults db1;
                     results = map (toSearchResult cfg now query) memories;
                     sorted = sort_key (\<lambda>r. - score r) results
                 in (Inr (sliceTo maxResults sorted), db1))))"

section \<open>Example stores\<close>

text \<open>Concrete inputs on which the operations are run in the theorems below.\<close>

definition noteRow :: "string \<Rightarrow> int \<Rightarrow> int \<Rightarrow> MemoryRow" where
  \<comment> \<open>a medium note of score one half, with text, creation time and compression level given\<close>
  "noteRow i t lvl =
     \<lparr>idR = i, contentR = ''blue door'', summaryR = None,
      source_path = ''MEMORY.md'', memory_type = Note, importance_level = Medium,
      importance_score = 1 / 2, created_at = t, updated_at = t, accessed_at = None,
      access_count = 0, compressed_from = None, compression_level = lvl,
      related_memories = None, source_session_id = None, source_channel = None\<rparr>"

definition storeOf :: "bool \<Rightarrow> MemoryRow list \<Rightarrow> Database" where
  \<comment> \<open>a database holding the given records and nothing else\<close>
  "storeOf fk rows =
     \<lparr>foreign_keys = fk, structured_memories = rows, tagsT = [], memory_tags = [],
      memory_access_log = [], memory_relations = [], tags_seq = 0, log_seq = 0,
      uuid_count = 0\<rparr>"

definition uuidGen :: "nat \<Rightarrow> string" where
  \<comment> \<open>a generator of identifiers that are pairwise distinct\<close>
  "uuidGen k = ''uuid-'' @ showInt (int k)"

definition nowExample :: int where
  \<comment> \<open>Monday 2026-11-02, 00:00 UTC\<close>
  "nowExample = 1793577600000"

definition sixNotes :: Database where
  \<comment> \<open>six level-0 notes made on the six days from Monday 2026-10-19 to Saturday
      2026-10-24 at noon UTC, all of ISO week 43 and more than seven days before
      \<open>nowExample\<close>\<close>
  "sixNotes =
     storeOf True
       [noteRow ''n1'' 1792411200000 0, noteRow ''n2'' 1792497600000 0,
        noteRow ''n3'' 1792584000000 0, noteRow ''n4'' 1792670400000 0,
        noteRow ''n5'' 1792756800000 0, noteRow ''n6'' 1792843200000 0]"

definition agedRecord :: MemoryRow where
  \<comment> \<open>a never accessed record of score 0.9 made forty days before \<open>nowExample\<close>\<close>
  "agedRecord = (noteRow ''old'' (nowExample - 40 * dayInMs) 0)\<lparr>importance_score := 9 / 10\<rparr>"

definition twoWeeklies :: Database where
  \<comment> \<open>two level-1 notes of September 2026 (the 10th and the 20th at noon UTC), more than
      thirty days before \<open>nowExample\<close>\<close>
  "twoWeeklies =
     storeOf True [noteRow ''w1'' 1789041600000 1, noteRow ''w2'' 1789905600000 1]"

definition staleNote :: Database where
  \<comment> \<open>one level-0 note, never accessed, made a hundred days before \<open>nowExample\<close>\<close>
  "staleNote = storeOf True [noteRow ''old0'' (nowExample - 100 * dayInMs) 0]"

definition linkedStore :: Database where
  \<comment> \<open>two notes; the first carries the tag \<^verbatim>\<open>a\<close>, has been read once and is related to
      the second in both directions\<close>
  "linkedStore =
     (storeOf True [noteRow ''m1'' 1792411200000 0, noteRow ''m2'' 1792497600000 0])
       \<lparr>tagsT := [\<lparr>tag_id = 1, tag_name = ''a'', tag_color = None, tag_description = None,
                    tag_created_at = 1792411200000, memory_count = 1\<rparr>],
        memory_tags := [\<lparr>link_memory_id = ''m1'', link_tag_id = 1\<rparr>],
        memory_access_log :=
          [\<lparr>log_id = 1, log_memory_id = ''m1'', log_accessed_at = 1792500000000,
            log_query = None, log_action = ActRead\<rparr>],
        memory_relations :=
          [\<lparr>source_id = ''m1'', target_id = ''m2'', relation_type = ''related'',
            relation_created_at = 1792500000000\<rparr>,
           \<lparr>source_id = ''m2'', target_id = ''m1'', relation_type = ''related'',
            relation_created_at = 1792500000000\<rparr>],
        tags_seq := 1, log_seq := 1\<rparr>"

definition tagCountsConsistent :: "Database \<Rightarrow> bool" where
  \<comment> \<open>every tag's \<^verbatim>\<open>memory_count\<close> is the number of rows of \<^verbatim>\<open>memory_tags\<close> for it\<close>
  "tagCountsConsistent db =
     list_all (\<lambda>t. memory_count t
                    = int (length (filter (\<lambda>l. link_tag_id l = tag_id t) (memory_tags db))))
       (tagsT db)"

definition freshNote :: Database where
  \<comment> \<open>one never accessed note of score one half, made at \<open>nowExample\<close>\<close>
  "freshNote = storeOf True [noteRow ''new'' nowExample 0]"

definition wordSet :: "string \<Rightarrow> string set" where
  \<comment> \<open>the set of the lowercase, whitespace-separated words of a text\<close>
  "wordSet a = set (splitWs (toLowerCase a))"

definition specJaccard :: "string \<Rightarrow> string \<Rightarrow> real" where
  \<comment> \<open>for comparison only, the similarity as the description words it: the word-set
      Jaccard index, the size of the intersection over the size of the union\<close>
  "specJaccard a b =
     real (card (wordSet a \<inter> wordSet b)) / real (card (wordSet a \<union> wordSet b))"

definition tenMonths :: string where
  "tenMonths = ''january february march april may june july august september october''"

definition sevenOfTen :: string where
  \<comment> \<open>seven of the ten words of \<open>tenMonths\<close>\<close>
  "sevenOfTen = ''january february march april august september october''"

definition eightOfTen :: string where
  \<comment> \<open>eight of the ten words of \<open>tenMonths\<close> and two others\<close>
  "eightOfTen = ''january february march april may june july august november december''"

definition monthsRow :: MemoryRow where
  "monthsRow = (noteRow ''m1'' 1792411200000 0)\<lparr>contentR := tenMonths\<rparr>"

definition monthsStore :: Database where
  \<comment> \<open>one record of \<^verbatim>\<open>MEMORY.md\<close> whose text is \<open>tenMonths\<close>\<close>
  "monthsStore = storeOf True [monthsRow]"

definition monthsRecord :: StructuredMemory where
  \<comment> \<open>that record as \<^verbatim>\<open>getMemory\<close> returns it\<close>
  "monthsRecord = rowToMemory monthsStore monthsRow"

definition sevenSection :: Section where
  "sevenSection = \<lparr>sectionContent = sevenOfTen, sectionType = Note, sectionTags = []\<rparr>"

definition eightSection :: Section where
  "eightSection = \<lparr>sectionContent = eightOfTen, sectionType = Note, sectionTags = []\<rparr>"

definition memoryMd :: MemoryFileEntry where
  \<comment> \<open>the file \<^verbatim>\<open>MEMORY.md\<close>, modified at \<open>nowExample\<close>\<close>
  "memoryMd = \<lparr>path = ''MEMORY.md'', absPath = ''/ws/MEMORY.md'', mtimeMs = 1793577600000\<rparr>"

section \<open>Predicates used in the statements\<close>

definition sameOutsideTags :: "Database \<Rightarrow> Database \<Rightarrow> bool" where
  \<comment> \<open>two databases that differ at most in the tag catalogue and the tag links\<close>
  "sameOutsideTags db db' =
     (structured_memories db' = structured_memories db
      \<and> memory_access_log db' = memory_access_log db
      \<and> memory_relations db' = memory_relations db
      \<and> foreign_keys db' = foreign_keys db
      \<and> log_seq db' = log_seq db
      \<and> uuid_count db' = uuid_count db)"

definition sameFrame :: "MemoryRow \<Rightarrow> MemoryRow \<Rightarrow> bool" where
  \<comment> \<open>two rows that agree on every column other than \<^verbatim>\<open>content\<close>, \<^verbatim>\<open>summary\<close>,
      \<^verbatim>\<open>memory_type\<close>, \<^verbatim>\<open>importance_level\<close>, \<^verbatim>\<open>importance_score\<close> and \<^verbatim>\<open>updated_at\<close>\<close>
  "sameFrame r r' =
     (idR r' = idR r \<and> source_path r' = source_path r \<and> created_at r' = created_at r
      \<and> accessed_at r' = accessed_at r \<and> access_count r' = access_count r
      \<and> compressed_from r' = compressed_from r \<and> compression_level r' = compression_level r
      \<and> related_memories r' = related_memories r
      \<and> source_session_id r' = source_session_id r \<and> source_channel r' = source_channel r)"

definition retained :: "MemoryRow \<Rightarrow> MemoryRow \<Rightarrow> bool" where
  \<comment> \<open>two rows that agree on every column other than \<^verbatim>\<open>compression_level\<close> and
      \<^verbatim>\<open>updated_at\<close>, the two columns that marking a record as compressed is meant to write\<close>
  "retained r r' =
     (idR r' = idR r \<and> contentR r' = contentR r \<and> summaryR r' = summaryR r
      \<and> source_path r' = source_path r \<and> memory_type r' = memory_type r
      \<and> importance_level r' = importance_level r \<and> importance_score r' = importance_score r
      \<and> created_at r' = created_at r
      \<and> accessed_at r' = accessed_at r \<and> access_count r' = access_count r
      \<and> compressed_from r' = compressed_from r
      \<and> related_memories r' = related_memories r
      \<and> source_session_id r' = source_session_id r \<and> source_channel r' = source_channel r)"

definition eligibleMonthlyGroups ::
  "int \<Rightarrow> int \<Rightarrow> Database \<Rightarrow> (string \<times> StructuredMemory list) list" where
  \<comment> \<open>the groups of \<^verbatim>\<open>compressToMonthly\<close> that pass its test \<^verbatim>\<open>monthMemories.length < 2\<close>, in
      the order of the loop\<close>
  "eligibleMonthlyGroups tz cutoff db =
     filter (\<lambda>g. 2 \<le> length (snd g)) (groupByMonth tz (monthlySelection cutoff db))"

definition summaryColumns ::
  "MemoryRow \<Rightarrow> string \<times> MemoryType \<times> int \<times> string list option" where
  \<comment> \<open>the identifier, type, level and \<^verbatim>\<open>compressed_from\<close> of a row\<close>
  "summaryColumns r = (idR r, memory_type r, compression_level r, compressed_from r)"

definition monthlySummaryOf ::
  "string \<times> string \<times> StructuredMemory list
     \<Rightarrow> string \<times> MemoryType \<times> int \<times> string list option" where
  \<comment> \<open>those columns of the monthly summary of a group, given its identifier: a
      \<^verbatim>\<open>summary\<close> of level 2 made from the records of the group\<close>
  "monthlySummaryOf p = (fst p, Summary, 2, Some (map idM (snd (snd p))))"

section \<open>Scores stay in the unit interval\<close>

lemma clamp01_range: "0 \<le> clamp01 x \<and> clamp01 x \<le> 1"
  by (simp add: clamp01_def)

lemma newScore_range: "0 \<le> newScore cfg now mem \<and> newScore cfg now mem \<le> 1"
  by (simp add: newScore_def Let_def clamp01_range)

lemma splitWsFrom_nonempty: "splitWsFrom b s \<noteq> []"
  by (induction s arbitrary: b) (auto split: list.splits)

lemma splitWs_nonempty: "splitWs s \<noteq> []"
  by (simp add: splitWs_def splitWsFrom_nonempty)

text \<open>
  The loop of \<^verbatim>\<open>recalculateImportance\<close> runs over a snapshot \<open>ms\<close> of the table. A row of
  the table it leaves has the identifier of a row it found, and a row whose identifier
  is in the snapshot has had a clamped score written to it.
\<close>

lemma recalc_fold_rows:
  assumes "r' \<in> set (structured_memories
             (fold (\<lambda>mem d. sqlSetScore (newScore cfg now mem) (idR mem) d) ms db))"
  shows "(\<exists>r \<in> set (structured_memories db). idR r = idR r' \<and>
            (importance_score r' = importance_score r
             \<or> (0 \<le> importance_score r' \<and> importance_score r' \<le> 1)))
         \<and> (idR r' \<in> idR ` set ms \<longrightarrow> 0 \<le> importance_score r' \<and> importance_score r' \<le> 1)"
  using assms
proof (induction ms arbitrary: db)
  case Nil
  then show ?case by auto
next
  case (Cons m ms)
  let ?d = "sqlSetScore (newScore cfg now m) (idR m) db"
  from Cons.prems have "r' \<in> set (structured_memories
       (fold (\<lambda>mem d. sqlSetScore (newScore cfg now mem) (idR mem) d) ms ?d))"
    by simp
  from Cons.IH[OF this] obtain r1 where r1: "r1 \<in> set (structured_memories ?d)"
      "idR r1 = idR r'"
      "importance_score r' = importance_score r1
         \<or> (0 \<le> importance_score r' \<and> importance_score r' \<le> 1)"
    and tl: "idR r' \<in> idR ` set ms \<longrightarrow> 0 \<le> importance_score r' \<and> importance_score r' \<le> 1"
    by blast
  from r1(1) obtain r where r: "r \<in> set (structured_memories db)"
      "r1 = (if idR r = idR m then r\<lparr>importance_score := newScore cfg now m\<rparr> else r)"
    by (auto simp: sqlSetScore_def)
  show ?case
  proof (cases "idR r = idR m")
    case True
    with r r1 newScore_range[of cfg now m]
    have in01: "0 \<le> importance_score r' \<and> importance_score r' \<le> 1" by auto
    moreover from r r1 True have "idR r = idR r'" by auto
    ultimately show ?thesis using r(1) by blast
  next
    case False
    with r r1 have same: "idR r = idR r'" "r1 = r" by auto
    with False have "idR r' \<noteq> idR m" by simp
    with tl r(1) same r1(3) show ?thesis by auto
  qed
qed

text \<open>
  Claim C5. Every scoring operation yields a score in \<open>[0, 1]\<close>: the relevance score that
  \<^verbatim>\<open>calculateRelevanceScore\<close> computes at query time, and the \<^verbatim>\<open>importance_score\<close> of
  every record after a run of \<^verbatim>\<open>recalculateImportance\<close> that is enabled (a disabled run
  returns at once and scores nothing). This holds for all weights, boosts and decay
  factors, those in \<open>[0, 1]\<close> among them.
\<close>

theorem C5_scores_in_unit_interval:
  "0 \<le> calculateRelevanceScore qcfg now memory query
   \<and> calculateRelevanceScore qcfg now memory query \<le> 1
   \<and> (importance_enabled cfg \<longrightarrow>
        (\<forall>r \<in> set (structured_memories (recalculateImportance cfg now db)).
           0 \<le> importance_score r \<and> importance_score r \<le> 1))"
proof -
  have a: "0 \<le> calculateRelevanceScore qcfg now memory query
      \<and> calculateRelevanceScore qcfg now memory query \<le> 1"
    by (simp add: calculateRelevanceScore_def Let_def clamp01_range)
  have b: "0 \<le> importance_score r \<and> importance_score r \<le> 1"
    if en: "importance_enabled cfg"
      and r: "r \<in> set (structured_memories (recalculateImportance cfg now db))" for r
  proof -
    from r en have "r \<in> set (structured_memories
        (fold (\<lambda>mem d. sqlSetScore (newScore cfg now mem) (idR mem) d)
           (structured_memories db) db))"
      by (simp add: recalculateImportance_def)
    from recalc_fold_rows[OF this] obtain ra where ra: "ra \<in> set (structured_memories db)"
        "idR ra = idR r"
      and imp: "idR r \<in> idR ` set (structured_memories db) \<longrightarrow>
                  0 \<le> importance_score r \<and> importance_score r \<le> 1"
      by blast
    from ra have "idR r \<in> idR ` set (structured_memories db)" by (metis imageI)
    with imp show ?thesis by blast
  qed
  from a b show ?thesis by blast
qed

theorem C5_scores_in_unit_interval_witness:
  "importance_enabled DEFAULT_importance
   \<and> structured_memories
        (recalculateImportance DEFAULT_importance nowExample (storeOf True [agedRecord])) \<noteq> []
   \<and> list_all (\<lambda>r. 0 \<le> importance_score r \<and> importance_score r \<le> 1)
        (structured_memories
           (recalculateImportance DEFAULT_importance nowExample (storeOf True [agedRecord])))
   \<and> 0 \<le> calculateRelevanceScore DEFAULT_query nowExample
              (rowToMemory (storeOf True [agedRecord]) agedRecord) ''blue door''
   \<and> calculateRelevanceScore DEFAULT_query nowExample
         (rowToMemory (storeOf True [agedRecord]) agedRecord) ''blue door'' \<le> 1"
proof -
  have en: "importance_enabled DEFAULT_importance"
    by (simp add: DEFAULT_importance_def)
  have ne: "structured_memories
        (recalculateImportance DEFAULT_importance nowExample (storeOf True [agedRecord])) \<noteq> []"
    by (simp add: recalculateImportance_def en storeOf_def sqlSetScore_def)
  from en ne
    C5_scores_in_unit_interval [of DEFAULT_query nowExample
      "rowToMemory (storeOf True [agedRecord]) agedRecord" "''blue door''"
      DEFAULT_importance "storeOf True [agedRecord]"]
  show ?thesis by (simp add: list_all_iff)
qed

section \<open>What \<^verbatim>\<open>updateMemory\<close> can change\<close>

lemma getOrCreateTag_frame: "sameOutsideTags db (snd (getOrCreateTag now t db))"
  by (simp add: getOrCreateTag_def sameOutsideTags_def Let_def split: option.splits)

lemma linkTag_frame: "sameOutsideTags db (snd (linkTag m t db))"
  by (simp add: linkTag_def sameOutsideTags_def)

lemma updateTagCount_frame: "sameOutsideTags db (updateTagCount t db)"
  by (simp add: updateTagCount_def sameOutsideTags_def)

lemma sameOutsideTags_trans:
  "sameOutsideTags a b \<Longrightarrow> sameOutsideTags b c \<Longrightarrow> sameOutsideTags a c"
  by (simp add: sameOutsideTags_def)

lemma setTagsLoop_frame: "sameOutsideTags db (snd (setTagsLoop now m ts db))"
proof (induction ts arbitrary: db)
  case Nil
  show ?case by (simp add: sameOutsideTags_def)
next
  case (Cons t ts)
  obtain tid db1 where g: "getOrCreateTag now t db = (tid, db1)" by (cases "getOrCreateTag now t db")
  obtain r db2 where l: "linkTag m tid db1 = (r, db2)" by (cases "linkTag m tid db1")
  have s1: "sameOutsideTags db db1" using getOrCreateTag_frame[of db now t] g by simp
  have s2: "sameOutsideTags db1 db2" using linkTag_frame[of db1 m tid] l by simp
  show ?case
  proof (cases r)
    case (Inl e)
    with g l s1 s2 show ?thesis by (auto intro: sameOutsideTags_trans)
  next
    case (Inr u)
    have "sameOutsideTags db2 (updateTagCount tid db2)" by (rule updateTagCount_frame)
    with s1 s2 have "sameOutsideTags db (updateTagCount tid db2)"
      by (blast intro: sameOutsideTags_trans)
    with Cons.IH[of "updateTagCount tid db2"] g l Inr show ?thesis
      by (auto intro: sameOutsideTags_trans)
  qed
qed

lemma setTagsForMemory_frame: "sameOutsideTags db (snd (setTagsForMemory now m ts db))"
proof -
  let ?d = "db\<lparr>memory_tags := filter (\<lambda>l. link_memory_id l \<noteq> m) (memory_tags db)\<rparr>"
  have "sameOutsideTags db ?d" by (simp add: sameOutsideTags_def)
  moreover have "sameOutsideTags ?d (snd (setTagsLoop now m ts ?d))" by (rule setTagsLoop_frame)
  ultimately show ?thesis unfolding setTagsForMemory_def by (rule sameOutsideTags_trans)
qed

lemma sameFrame_refl: "sameFrame r r"
  by (simp add: sameFrame_def)

lemma sameOutsideTags_refl: "sameOutsideTags db db"
  by (simp add: sameOutsideTags_def)

lemma sameOutsideTags_snd: "sameOutsideTags db (snd p) \<Longrightarrow> p = (r, db') \<Longrightarrow> sameOutsideTags db db'"
  by simp

lemma assign_frame: "sameFrame r (assign a r)"
  by (cases a) (simp_all add: sameFrame_def)

lemma fold_assign_frame: "sameFrame r (fold assign sets r)"
proof (induction sets arbitrary: r)
  case Nil show ?case by (simp add: sameFrame_def)
next
  case (Cons a sets)
  have "sameFrame r (assign a r)" by (rule assign_frame)
  moreover have "sameFrame (assign a r) (fold assign sets (assign a r))" by (rule Cons.IH)
  ultimately show ?case by (simp add: sameFrame_def)
qed

lemma sqlUpdateMemory_rows:
  "list_all2 (\<lambda>r r'. sameFrame r r' \<and> (idR r \<noteq> i \<longrightarrow> r' = r))
     (structured_memories db) (structured_memories (sqlUpdateMemory sets i db))"
  by (simp add: sqlUpdateMemory_def list_all2_map2 list_all2_same fold_assign_frame sameFrame_refl)

lemma updateMemory_cases:
  assumes "updateMemory now i u db = (res, db')"
  shows "\<exists>db1. sameOutsideTags db db1
           \<and> (db' = db1 \<or> db' = sqlUpdateMemory (updateSets u @ [SetUpdatedAt now]) i db1)"
proof (cases "getMemory db i")
  case None
  with assms have "db' = db" by (simp add: updateMemory_def)
  then show ?thesis using sameOutsideTags_refl by blast
next
  case (Some existing)
  define p where "p = (case tagsU u of None \<Rightarrow> (Inr (), db)
                        | Some tagNames \<Rightarrow> setTagsForMemory now i tagNames db)"
  have fr: "sameOutsideTags db (snd p)"
    unfolding p_def by (cases "tagsU u") (simp_all add: sameOutsideTags_refl setTagsForMemory_frame)
  obtain r db1 where p: "p = (r, db1)" by (cases p)
  with fr have fr1: "sameOutsideTags db db1" by simp
  from assms Some p have "db' = db1 \<or> db' = sqlUpdateMemory (updateSets u @ [SetUpdatedAt now]) i db1"
    unfolding updateMemory_def p_def[symmetric]
    by (cases r) (auto simp: Let_def split: if_splits)
  with fr1 show ?thesis by blast
qed


text \<open>
  Claim C10. Whatever the identifier and the partial update, \<^verbatim>\<open>updateMemory\<close> leaves the
  table of records with the same rows in the same places, each with its \<^verbatim>\<open>id\<close>,
  \<^verbatim>\<open>source_path\<close>, \<^verbatim>\<open>created_at\<close>, \<^verbatim>\<open>accessed_at\<close>, \<^verbatim>\<open>access_count\<close>,
  \<^verbatim>\<open>compressed_from\<close>, \<^verbatim>\<open>compression_level\<close>, \<^verbatim>\<open>related_memories\<close>,
  \<^verbatim>\<open>source_session_id\<close> and \<^verbatim>\<open>source_channel\<close> as before (only \<^verbatim>\<open>content\<close>,
  \<^verbatim>\<open>summary\<close>, \<^verbatim>\<open>memory_type\<close>, \<^verbatim>\<open>importance_level\<close>, \<^verbatim>\<open>importance_score\<close> and
  \<^verbatim>\<open>updated_at\<close> can differ), and every row with another identifier unchanged; the
  access log and the relation edges are untouched. An update that supplies none of
  \<^verbatim>\<open>content\<close>, \<^verbatim>\<open>summary\<close>, \<^verbatim>\<open>memoryType\<close>, \<^verbatim>\<open>importanceLevel\<close>,
  \<^verbatim>\<open>importanceScore\<close> and \<^verbatim>\<open>tags\<close> (one that supplies only \<^verbatim>\<open>compressionLevel\<close>, say)
  leaves the whole database as it was: no \<^verbatim>\<open>UPDATE\<close> runs, so that not even
  \<^verbatim>\<open>updated_at\<close> moves.
\<close>

theorem C10_update_frame:
  "list_all2 (\<lambda>r r'. sameFrame r r' \<and> (idR r \<noteq> i \<longrightarrow> r' = r))
     (structured_memories db) (structured_memories (snd (updateMemory now i u db)))
   \<and> memory_access_log (snd (updateMemory now i u db)) = memory_access_log db
   \<and> memory_relations (snd (updateMemory now i u db)) = memory_relations db
   \<and> (contentU u = None \<and> summaryU u = None \<and> memoryTypeU u = None
        \<and> importanceLevelU u = None \<and> importanceScoreU u = None \<and> tagsU u = None
        \<longrightarrow> snd (updateMemory now i u db) = db)"
proof -
  obtain res db' where run: "updateMemory now i u db = (res, db')"
    by (cases "updateMemory now i u db")
  from updateMemory_cases[OF run] obtain db1 where fr: "sameOutsideTags db db1"
    and alt: "db' = db1 \<or> db' = sqlUpdateMemory (updateSets u @ [SetUpdatedAt now]) i db1"
    by blast
  have rows: "list_all2 (\<lambda>r r'. sameFrame r r' \<and> (idR r \<noteq> i \<longrightarrow> r' = r))
     (structured_memories db) (structured_memories db')"
  proof (cases "db' = db1")
    case True
    with fr show ?thesis
      by (simp add: sameOutsideTags_def list_all2_same sameFrame_refl)
  next
    case False
    with alt have "db' = sqlUpdateMemory (updateSets u @ [SetUpdatedAt now]) i db1" by simp
    with sqlUpdateMemory_rows[of i db1 "updateSets u @ [SetUpdatedAt now]"] fr
    show ?thesis by (simp add: sameOutsideTags_def)
  qed
  from alt fr have logs: "memory_access_log db' = memory_access_log db"
    and rels: "memory_relations db' = memory_relations db"
    by (auto simp: sameOutsideTags_def sqlUpdateMemory_def)
  have noop: "db' = db"
    if "contentU u = None \<and> summaryU u = None \<and> memoryTypeU u = None
        \<and> importanceLevelU u = None \<and> importanceScoreU u = None \<and> tagsU u = None"
    using run that
    by (cases "getMemory db i") (simp_all add: updateMemory_def updateSets_def Let_def)
  from rows logs rels noop run show ?thesis by simp
qed

theorem C10_update_frame_witness:
  "contentU (noUpdates\<lparr>compressionLevelU := Some 1\<rparr>) = None
   \<and> summaryU (noUpdates\<lparr>compressionLevelU := Some 1\<rparr>) = None
   \<and> memoryTypeU (noUpdates\<lparr>compressionLevelU := Some 1\<rparr>) = None
   \<and> importanceLevelU (noUpdates\<lparr>compressionLevelU := Some 1\<rparr>) = None
   \<and> importanceScoreU (noUpdates\<lparr>compressionLevelU := Some 1\<rparr>) = None
   \<and> tagsU (noUpdates\<lparr>compressionLevelU := Some 1\<rparr>) = None
   \<and> memoryExists sixNotes ''n1''
   \<and> snd (updateMemory nowExample ''n1'' (noUpdates\<lparr>compressionLevelU := Some 1\<rparr>) sixNotes)
       = sixNotes
   \<and> list_all2 (\<lambda>r r'. sameFrame r r' \<and> (idR r \<noteq> ''n2'' \<longrightarrow> r' = r))
       (structured_memories sixNotes)
       (structured_memories
          (snd (updateMemory nowExample ''n2'' (noUpdates\<lparr>contentU := Some ''Paint it''\<rparr>)
                  sixNotes)))"
proof -
  have ex: "memoryExists sixNotes ''n1''"
    by (simp add: memoryExists_def sixNotes_def storeOf_def noteRow_def)
  from ex
    C10_update_frame [of "''n1''" sixNotes nowExample "noUpdates\<lparr>compressionLevelU := Some 1\<rparr>"]
    C10_update_frame [of "''n2''" sixNotes nowExample "noUpdates\<lparr>contentU := Some ''Paint it''\<rparr>"]
  show ?thesis by (simp add: noUpdates_def)
qed

section \<open>Creating a record; the monthly stage\<close>

lemma memoryExists_sameOutsideTags:
  "sameOutsideTags db db' \<Longrightarrow> memoryExists db' m = memoryExists db m"
  by (simp add: sameOutsideTags_def memoryExists_def)

lemma find_tag_exists:
  "find (\<lambda>t. tag_name t = n) ts = Some t \<Longrightarrow> tag_id t \<in> tag_id ` set ts"
  by (auto simp: find_Some_iff)

lemma getOrCreateTag_exists:
  "getOrCreateTag now t db = (tid, db1) \<Longrightarrow> tagExists db1 tid"
  by (auto simp: getOrCreateTag_def tagExists_def Let_def find_tag_exists split: option.splits)

lemma linkTag_ok:
  "memoryExists db m \<Longrightarrow> tagExists db t \<Longrightarrow> fst (linkTag m t db) = Inr ()"
  by (simp add: linkTag_def)

lemma setTagsLoop_ok:
  "memoryExists db m \<Longrightarrow> fst (setTagsLoop now m ts db) = Inr ()"
proof (induction ts arbitrary: db)
  case Nil
  show ?case by simp
next
  case (Cons t ts)
  obtain tid db1 where g: "getOrCreateTag now t db = (tid, db1)" by (cases "getOrCreateTag now t db")
  have s1: "sameOutsideTags db db1" using getOrCreateTag_frame[of db now t] g by simp
  with Cons.prems have m1: "memoryExists db1 m" by (simp add: memoryExists_sameOutsideTags)
  from g have t1: "tagExists db1 tid" by (rule getOrCreateTag_exists)
  obtain r db2 where l: "linkTag m tid db1 = (r, db2)" by (cases "linkTag m tid db1")
  from linkTag_ok[OF m1 t1] l have r: "r = Inr ()" by simp
  have s2: "sameOutsideTags db1 db2" using linkTag_frame[of db1 m tid] l by simp
  have "sameOutsideTags db2 (updateTagCount tid db2)" by (rule updateTagCount_frame)
  with s2 m1 have "memoryExists (updateTagCount tid db2) m"
    by (simp add: memoryExists_sameOutsideTags)
  from Cons.IH[OF this] g l r show ?case by simp
qed

lemma setTagsForMemory_ok:
  "memoryExists db m \<Longrightarrow> fst (setTagsForMemory now m ts db) = Inr ()"
  unfolding setTagsForMemory_def
  by (rule setTagsLoop_ok) (simp add: memoryExists_def)

text \<open>What \<^verbatim>\<open>createMemory\<close> does: a failed insert changes no table, a successful one appends one row.\<close>

lemma createMemory_cases:
  assumes "createMemory gen now memory db = (res, db')"
  defines "full \<equiv> memory\<lparr>idM := gen (uuid_count db), createdAt := now, updatedAt := now,
                            accessCount := 0\<rparr>"
  shows "(memoryExists db (gen (uuid_count db)) \<longrightarrow>
            res = Inl UniqueConstraintFailed \<and> structured_memories db' = structured_memories db)
         \<and> (\<not> memoryExists db (gen (uuid_count db)) \<longrightarrow>
            res = Inr full
            \<and> structured_memories db' = structured_memories db @ [memoryToRow full])
         \<and> memory_access_log db' = memory_access_log db
         \<and> memory_relations db' = memory_relations db
         \<and> foreign_keys db' = foreign_keys db"
proof (cases "memoryExists db (gen (uuid_count db))")
  case True
  with assms(1) show ?thesis
    by (auto simp: createMemory_def Let_def memoryExists_def)
next
  case False
  let ?i = "gen (uuid_count db)"
  let ?db1 = "db\<lparr>uuid_count := Suc (uuid_count db),
                 structured_memories := structured_memories db @ [memoryToRow full]\<rparr>"
  have ex: "memoryExists ?db1 ?i"
    by (simp add: memoryExists_def memoryToRow_def full_def)
  show ?thesis
  proof (cases "tags memory = []")
    case True
    with False assms(1) show ?thesis
      by (auto simp: createMemory_def Let_def memoryExists_def full_def)
  next
    case nonempty: False
    obtain r db2 where st: "setTagsForMemory now ?i (tags memory) ?db1 = (r, db2)"
      by (cases "setTagsForMemory now ?i (tags memory) ?db1")
    from setTagsForMemory_ok[OF ex, of now "tags memory"] st have r: "r = Inr ()" by simp
    from setTagsForMemory_frame[of ?db1 now ?i "tags memory"] st
    have fr: "sameOutsideTags ?db1 db2" by simp
    from False nonempty assms(1) st r have "res = Inr full" "db' = db2"
      by (auto simp: createMemory_def Let_def memoryExists_def full_def)
    with fr False show ?thesis by (simp add: sameOutsideTags_def)
  qed
qed

lemma updateMemory_level_only:
  "updateMemory now i (noUpdates\<lparr>compressionLevelU := Some l\<rparr>) db = (Inr (getMemory db i), db)"
  by (cases "getMemory db i") (simp_all add: updateMemory_def noUpdates_def updateSets_def Let_def)

lemma markCompressed_noop: "markCompressed now l ms db = (Inr (), db)"
  by (induction ms) (simp_all add: updateMemory_level_only)


lemma generateSummary_Some: "\<exists>s. generateSummary ms l = Some s \<and> s \<noteq> []"
  by (simp add: generateSummary_def Let_def)

lemma monthlyGroup_eq:
  "\<exists>s. monthlyGroup gen now (key, ms) db =
     (if length ms < 2 then ((0, 0), db)
      else case createMemory gen now (monthlySummaryMemory key ms s) db of
             (Inl e, db1) \<Rightarrow> ((0, 1), db1)
           | (Inr m, db1) \<Rightarrow> ((1, 0), db1))"
proof -
  obtain s where s: "generateSummary ms Monthly = Some s" "s \<noteq> []"
    using generateSummary_Some by blast
  then have "monthlyGroup gen now (key, ms) db =
     (if length ms < 2 then ((0, 0), db)
      else case createMemory gen now (monthlySummaryMemory key ms s) db of
             (Inl e, db1) \<Rightarrow> ((0, 1), db1)
           | (Inr m, db1) \<Rightarrow> ((1, 0), db1))"
    by (simp add: monthlyGroup_def markCompressed_noop split: prod.splits sum.splits)
  then show ?thesis by blast
qed

lemma createMemory_uuid_count:
  "uuid_count (snd (createMemory gen now memory db)) = Suc (uuid_count db)"
proof (cases "memoryExists db (gen (uuid_count db))")
  case True
  then show ?thesis by (simp add: createMemory_def Let_def memoryExists_def)
next
  case False
  let ?full = "memory\<lparr>idM := gen (uuid_count db), createdAt := now, updatedAt := now,
                            accessCount := 0\<rparr>"
  let ?db1 = "db\<lparr>uuid_count := Suc (uuid_count db),
                 structured_memories := structured_memories db @ [memoryToRow ?full]\<rparr>"
  show ?thesis
  proof (cases "tags memory = []")
    case True
    with False show ?thesis by (simp add: createMemory_def Let_def memoryExists_def)
  next
    case nonempty: False
    from setTagsForMemory_frame[of ?db1 now "gen (uuid_count db)" "tags memory"]
    have "uuid_count (snd (setTagsForMemory now (gen (uuid_count db)) (tags memory) ?db1))
            = Suc (uuid_count db)"
      by (simp add: sameOutsideTags_def)
    with False nonempty show ?thesis
      by (auto simp: createMemory_def Let_def memoryExists_def split: prod.splits sum.splits)
  qed
qed

lemma monthlyGroup_small:
  "length ms < 2 \<Longrightarrow> monthlyGroup gen now (key, ms) db = ((0, 0), db)"
  by (simp add: monthlyGroup_def)

lemma monthlyGroup_fresh:
  assumes "2 \<le> length ms" and "\<not> memoryExists db (gen (uuid_count db))"
  shows "\<exists>row db1. monthlyGroup gen now (key, ms) db = ((1, 0), db1)
           \<and> structured_memories db1 = structured_memories db @ [row]
           \<and> summaryColumns row = monthlySummaryOf (gen (uuid_count db), key, ms)
           \<and> uuid_count db1 = Suc (uuid_count db)"
proof -
  obtain s where eq: "monthlyGroup gen now (key, ms) db =
     (if length ms < 2 then ((0, 0), db)
      else case createMemory gen now (monthlySummaryMemory key ms s) db of
             (Inl e, db1) \<Rightarrow> ((0, 1), db1)
           | (Inr m, db1) \<Rightarrow> ((1, 0), db1))"
    using monthlyGroup_eq by blast
  obtain res db1 where cm: "createMemory gen now (monthlySummaryMemory key ms s) db = (res, db1)"
    by (cases "createMemory gen now (monthlySummaryMemory key ms s) db")
  let ?full = "(monthlySummaryMemory key ms s)\<lparr>idM := gen (uuid_count db), createdAt := now,
                     updatedAt := now, accessCount := 0\<rparr>"
  from createMemory_cases[OF cm] assms(2) have r: "res = Inr ?full"
    "structured_memories db1 = structured_memories db @ [memoryToRow ?full]"
    by simp_all
  from createMemory_uuid_count[of gen now "monthlySummaryMemory key ms s" db] cm
  have u: "uuid_count db1 = Suc (uuid_count db)" by simp
  from eq assms(1) cm r have m: "monthlyGroup gen now (key, ms) db = ((1, 0), db1)" by simp
  have "summaryColumns (memoryToRow ?full) = monthlySummaryOf (gen (uuid_count db), key, ms)"
    by (simp add: summaryColumns_def monthlySummaryOf_def memoryToRow_def monthlySummaryMemory_def)
  with m r u show ?thesis by blast
qed

lemma forGroups_monthly_exact:
  assumes "distinct (map gen [uuid_count db ..< uuid_count db + length (filter (\<lambda>g. 2 \<le> length (snd g)) gs)])"
    and "\<forall>k \<in> {uuid_count db ..< uuid_count db + length (filter (\<lambda>g. 2 \<le> length (snd g)) gs)}.
            \<not> memoryExists db (gen k)"
  shows "\<exists>new db'. forGroups (monthlyGroup gen now) gs acc db
              = ((fst acc + length (filter (\<lambda>g. 2 \<le> length (snd g)) gs), snd acc), db')
           \<and> structured_memories db' = structured_memories db @ new
           \<and> map summaryColumns new
              = map monthlySummaryOf
                  (zip (map gen [uuid_count db ..< uuid_count db + length (filter (\<lambda>g. 2 \<le> length (snd g)) gs)])
                       (filter (\<lambda>g. 2 \<le> length (snd g)) gs))"
  using assms
proof (induction gs arbitrary: db acc)
  case Nil
  then show ?case by simp
next
  case (Cons g gs)
  obtain key ms where g: "g = (key, ms)" by (cases g)
  let ?P = "\<lambda>g::string \<times> StructuredMemory list. 2 \<le> length (snd g)"
  let ?n = "length (filter ?P gs)"
  show ?case
  proof (cases "2 \<le> length ms")
    case False
    then have b: "monthlyGroup gen now (key, ms) db = ((0, 0), db)"
      by (simp add: monthlyGroup_small)
    from False g have f: "filter ?P (g # gs) = filter ?P gs" by simp
    from Cons.prems f have p1: "distinct (map gen [uuid_count db ..< uuid_count db + ?n])"
      and p2: "\<forall>k \<in> {uuid_count db ..< uuid_count db + ?n}. \<not> memoryExists db (gen k)"
      by simp_all
    from Cons.IH[OF p1 p2, of acc] g b f show ?thesis by simp
  next
    case True
    with g have f: "filter ?P (g # gs) = g # filter ?P gs" by simp
    let ?u = "uuid_count db"
    have upt: "[?u ..< ?u + Suc ?n] = ?u # [Suc ?u ..< Suc ?u + ?n]"
      by (subst upt_rec) simp
    from Cons.prems f upt have d: "distinct (gen ?u # map gen [Suc ?u ..< Suc ?u + ?n])"
      and fr: "\<forall>k \<in> {?u ..< ?u + Suc ?n}. \<not> memoryExists db (gen k)"
      by simp_all
    from fr have fresh: "\<not> memoryExists db (gen ?u)" by simp
    from monthlyGroup_fresh[where ms = ms and db = db and gen = gen and now = now and key = key]
      True fresh
    obtain row db1 where
      b: "monthlyGroup gen now (key, ms) db = ((1, 0), db1)"
      and rows1: "structured_memories db1 = structured_memories db @ [row]"
      and cols: "summaryColumns row = monthlySummaryOf (gen ?u, key, ms)"
      and u1: "uuid_count db1 = Suc ?u"
      by blast
    from cols have idrow: "idR row = gen ?u"
      by (simp add: summaryColumns_def monthlySummaryOf_def)
    from d u1 have p1: "distinct (map gen [uuid_count db1 ..< uuid_count db1 + ?n])" by simp
    have p2: "\<forall>k \<in> {uuid_count db1 ..< uuid_count db1 + ?n}. \<not> memoryExists db1 (gen k)"
    proof
      fix k assume k: "k \<in> {uuid_count db1 ..< uuid_count db1 + ?n}"
      then have k1: "k \<in> set [Suc ?u ..< Suc ?u + ?n]" unfolding u1 set_upt .
      from d have "gen ?u \<notin> set (map gen [Suc ?u ..< Suc ?u + ?n])"
        by (simp only: distinct.simps) blast
      with k1 have ne: "gen k \<noteq> gen ?u" by (metis imageI set_map)
      from k u1 have "k \<in> {?u ..< ?u + Suc ?n}"
        by (simp only: atLeastLessThan_iff) linarith
      with fr have "\<not> memoryExists db (gen k)" by blast
      with ne rows1 idrow show "\<not> memoryExists db1 (gen k)"
        by (simp add: memoryExists_def)
    qed
    from Cons.IH[OF p1 p2, of "(fst acc + 1, snd acc + 0)"] obtain new db' where
      r: "forGroups (monthlyGroup gen now) gs (fst acc + 1, snd acc + 0) db1
              = ((fst acc + 1 + ?n, snd acc), db')"
      and rows2: "structured_memories db' = structured_memories db1 @ new"
      and cols2: "map summaryColumns new
              = map monthlySummaryOf
                  (zip (map gen [uuid_count db1 ..< uuid_count db1 + ?n]) (filter ?P gs))"
      by auto
    from g b r True have 1: "forGroups (monthlyGroup gen now) (g # gs) acc db
              = ((fst acc + length (filter ?P (g # gs)), snd acc), db')"
      by simp
    from rows1 rows2 have 2: "structured_memories db' = structured_memories db @ (row # new)"
      by simp
    have 3: "map summaryColumns (row # new)
              = map monthlySummaryOf
                  (zip (map gen [?u ..< ?u + length (filter ?P (g # gs))]) (filter ?P (g # gs)))"
      unfolding f length_Cons upt using cols cols2 u1 g by simp
    from 1 2 3 show ?thesis by blast
  qed
qed

lemma retained_refl: "retained r r"
  by (simp add: retained_def)


text \<open>
  Claim C2, as the code has it. The monthly stage retains its sources. When the
  configured age parses and the identifiers drawn for the summaries are fresh and
  pairwise distinct, a run of \<^verbatim>\<open>compressToMonthly\<close> reports one summary created for each
  group of at least two records and no error; every record that was in the store is
  still there, in its place and with its columns other than \<^verbatim>\<open>compression_level\<close> and
  \<^verbatim>\<open>updated_at\<close> as they were (of those two nothing is said); and behind them comes,
  for each such group in turn, exactly one new \<^verbatim>\<open>summary\<close> record of level 2 whose
  \<^verbatim>\<open>compressedFrom\<close> lists the records of the group. The number of records grows by
  the number of such groups.
\<close>

theorem C2_monthly_adds_summary_keeps_sources:
  "parseDuration (weeklyToMonthly cfg) = Inr minAge
   \<and> groups = eligibleMonthlyGroups tz (now - minAge) db
   \<and> ids = map gen [uuid_count db ..< uuid_count db + length groups]
   \<and> distinct ids \<and> list_all (\<lambda>i. \<not> memoryExists db i) ids
   \<longrightarrow> fst (compressToMonthly cfg gen tz now db) = Inr (length groups, 0)
     \<and> (\<exists>olds new.
           structured_memories (snd (compressToMonthly cfg gen tz now db)) = olds @ new
           \<and> list_all2 retained (structured_memories db) olds
           \<and> map summaryColumns new = map monthlySummaryOf (zip ids groups))
     \<and> length (structured_memories (snd (compressToMonthly cfg gen tz now db)))
         = length (structured_memories db) + length groups"
proof
  assume h: "parseDuration (weeklyToMonthly cfg) = Inr minAge
   \<and> groups = eligibleMonthlyGroups tz (now - minAge) db
   \<and> ids = map gen [uuid_count db ..< uuid_count db + length groups]
   \<and> distinct ids \<and> list_all (\<lambda>i. \<not> memoryExists db i) ids"
  let ?gs = "groupByMonth tz (monthlySelection (now - minAge) db)"
  from h have grp: "groups = filter (\<lambda>g. 2 \<le> length (snd g)) ?gs"
    by (simp add: eligibleMonthlyGroups_def)
  from h have hi: "ids = map gen [uuid_count db ..< uuid_count db + length groups]"
    and hd: "distinct ids" and hf: "list_all (\<lambda>i. \<not> memoryExists db i) ids"
    by blast+
  from hd have p1: "distinct (map gen [uuid_count db ..< uuid_count db
                          + length (filter (\<lambda>g. 2 \<le> length (snd g)) ?gs)])"
    unfolding hi grp .
  from hf have p2: "\<forall>k \<in> {uuid_count db ..< uuid_count db
                          + length (filter (\<lambda>g. 2 \<le> length (snd g)) ?gs)}.
            \<not> memoryExists db (gen k)"
    unfolding hi grp by (simp add: list_all_iff)
  from forGroups_monthly_exact[OF p1 p2, of now "(0, 0)"] grp h obtain new db' where
    r: "forGroups (monthlyGroup gen now) ?gs (0, 0) db = ((length groups, 0), db')"
    and rows: "structured_memories db' = structured_memories db @ new"
    and cols: "map summaryColumns new = map monthlySummaryOf (zip ids groups)"
    by auto
  from h r have c: "compressToMonthly cfg gen tz now db = (Inr (length groups, 0), db')"
    by (simp add: compressToMonthly_def Let_def)
  from cols have "length (map summaryColumns new) = length (map monthlySummaryOf (zip ids groups))"
    by (simp only:)
  with hi have len: "length new = length groups" by simp
  have "list_all2 retained (structured_memories db) (structured_memories db)"
    by (simp add: list_all2_same retained_refl)
  with c rows cols len
  show "fst (compressToMonthly cfg gen tz now db) = Inr (length groups, 0)
     \<and> (\<exists>olds new.
           structured_memories (snd (compressToMonthly cfg gen tz now db)) = olds @ new
           \<and> list_all2 retained (structured_memories db) olds
           \<and> map summaryColumns new = map monthlySummaryOf (zip ids groups))
     \<and> length (structured_memories (snd (compressToMonthly cfg gen tz now db)))
         = length (structured_memories db) + length groups"
    by auto
qed


text \<open>
  The claim as stated fails: on two level-1 notes of one month, older than thirty days,
  the stage creates its summary and the store holds three records afterwards, the two
  sources among them, where the claim expects one.
\<close>

theorem C2_monthly_deletes_sources_counterexample:
  "map (\<lambda>m. (idM m, compressionLevel m))
     (monthlySelection (nowExample - 30 * dayInMs) twoWeeklies)
     = [(''w1'', Some 1), (''w2'', Some 1)]
   \<and> map (\<lambda>g. (fst g, map idM (snd g)))
         (groupByMonth 0 (monthlySelection (nowExample - 30 * dayInMs) twoWeeklies))
       = [(''2026-09'', [''w1'', ''w2''])]
   \<and> map idR (structured_memories twoWeeklies) = [''w1'', ''w2'']
   \<and> (case compressToMonthly DEFAULT_compression uuidGen 0 nowExample twoWeeklies of
         (res, db') \<Rightarrow>
           res = Inr (1, 0)
           \<and> map idR (structured_memories db') = [''w1'', ''w2'', ''uuid-0'']
           \<and> length (structured_memories db')
               \<noteq> length (structured_memories twoWeeklies) - 2 + 1)"
  by code_simp

theorem C2_monthly_adds_summary_keeps_sources_witness:
  "parseDuration (weeklyToMonthly DEFAULT_compression) = Inr (30 * dayInMs)
   \<and> map (\<lambda>g. (fst g, map idM (snd g)))
         (eligibleMonthlyGroups 0 (nowExample - 30 * dayInMs) twoWeeklies)
       = [(''2026-09'', [''w1'', ''w2''])]
   \<and> map uuidGen [uuid_count twoWeeklies ..< uuid_count twoWeeklies
             + length (eligibleMonthlyGroups 0 (nowExample - 30 * dayInMs) twoWeeklies)]
       = [''uuid-0'']
   \<and> \<not> memoryExists twoWeeklies ''uuid-0''
   \<and> fst (compressToMonthly DEFAULT_compression uuidGen 0 nowExample twoWeeklies) = Inr (1, 0)
   \<and> (\<exists>olds new.
         structured_memories (snd (compressToMonthly DEFAULT_compression uuidGen 0 nowExample
                                     twoWeeklies)) = olds @ new
         \<and> list_all2 retained (structured_memories twoWeeklies) olds
         \<and> map summaryColumns new = [(''uuid-0'', Summary, 2, Some [''w1'', ''w2''])])
   \<and> length (structured_memories (snd (compressToMonthly DEFAULT_compression uuidGen 0
                                         nowExample twoWeeklies)))
       = length (structured_memories twoWeeklies) + 1"
proof -
  let ?groups = "eligibleMonthlyGroups 0 (nowExample - 30 * dayInMs) twoWeeklies"
  let ?ids = "map uuidGen [uuid_count twoWeeklies ..< uuid_count twoWeeklies + length ?groups]"
  have p: "parseDuration (weeklyToMonthly DEFAULT_compression) = Inr (30 * dayInMs)"
    by code_simp
  have g: "map (\<lambda>g. (fst g, map idM (snd g))) ?groups = [(''2026-09'', [''w1'', ''w2''])]"
    by code_simp
  have n: "length ?groups = 1" by code_simp
  have i: "?ids = [''uuid-0'']" by code_simp
  have f: "\<not> memoryExists twoWeeklies ''uuid-0''" by code_simp
  have z: "map monthlySummaryOf (zip ?ids ?groups) = [(''uuid-0'', Summary, 2, Some [''w1'', ''w2''])]"
    by code_simp
  from i f have h: "distinct ?ids \<and> list_all (\<lambda>i. \<not> memoryExists twoWeeklies i) ?ids"
    by simp
  note t = C2_monthly_adds_summary_keeps_sources
             [where cfg = DEFAULT_compression and minAge = "30 * dayInMs" and groups = ?groups
                and tz = 0 and now = nowExample and db = twoWeeklies and ids = ?ids
                and gen = uuidGen]
  from t p h have r: "fst (compressToMonthly DEFAULT_compression uuidGen 0 nowExample twoWeeklies)
        = Inr (length ?groups, 0)
     \<and> (\<exists>olds new.
           structured_memories (snd (compressToMonthly DEFAULT_compression uuidGen 0 nowExample
                                       twoWeeklies)) = olds @ new
           \<and> list_all2 retained (structured_memories twoWeeklies) olds
           \<and> map summaryColumns new = map monthlySummaryOf (zip ?ids ?groups))
     \<and> length (structured_memories (snd (compressToMonthly DEFAULT_compression uuidGen 0
                                           nowExample twoWeeklies)))
         = length (structured_memories twoWeeklies) + length ?groups"
    by blast
  from r n z have c: "fst (compressToMonthly DEFAULT_compression uuidGen 0 nowExample twoWeeklies)
        = Inr (1, 0)
     \<and> (\<exists>olds new.
           structured_memories (snd (compressToMonthly DEFAULT_compression uuidGen 0 nowExample
                                       twoWeeklies)) = olds @ new
           \<and> list_all2 retained (structured_memories twoWeeklies) olds
           \<and> map summaryColumns new = [(''uuid-0'', Summary, 2, Some [''w1'', ''w2''])])
     \<and> length (structured_memories (snd (compressToMonthly DEFAULT_compression uuidGen 0
                                           nowExample twoWeeklies)))
         = length (structured_memories twoWeeklies) + 1"
    by (simp only:)
  from p g i f c show ?thesis by blast
qed

section \<open>Deleting a record\<close>

text \<open>
  Claim C8, as the code has it. With the foreign keys of the schema enforced, deleting
  a record that is in the store removes the record and, through \<^verbatim>\<open>ON DELETE CASCADE\<close>,
  every tag link, access-log row and relation edge that names it: no row of
  \<^verbatim>\<open>memory_tags\<close>, \<^verbatim>\<open>memory_access_log\<close> or \<^verbatim>\<open>memory_relations\<close> references the deleted
  identifier afterwards. The other records stay as they were, the identifier lists in
  their \<^verbatim>\<open>compressed_from\<close> and \<^verbatim>\<open>related_memories\<close> columns included.
\<close>

theorem C8_delete_cascades:
  "foreign_keys db \<and> memoryExists db i \<longrightarrow>
     fst (deleteMemory i db)
     \<and> \<not> memoryExists (snd (deleteMemory i db)) i
     \<and> (\<forall>l \<in> set (memory_tags (snd (deleteMemory i db))). link_memory_id l \<noteq> i)
     \<and> (\<forall>a \<in> set (memory_access_log (snd (deleteMemory i db))). log_memory_id a \<noteq> i)
     \<and> (\<forall>e \<in> set (memory_relations (snd (deleteMemory i db))).
           source_id e \<noteq> i \<and> target_id e \<noteq> i)
     \<and> structured_memories (snd (deleteMemory i db))
         = filter (\<lambda>r. idR r \<noteq> i) (structured_memories db)"
proof
  assume h: "foreign_keys db \<and> memoryExists db i"
  let ?gone = "idR ` set (filter (\<lambda>r. idR r = i) (structured_memories db))"
  from h have gone: "i \<in> ?gone" by (auto simp: memoryExists_def)
  have rows: "\<not> memoryExists (snd (deleteMemory i db)) i"
    by (auto simp: deleteMemory_def sqlDeleteMemories_def memoryExists_def Let_def)
  from h gone have links: "\<forall>l \<in> set (memory_tags (snd (deleteMemory i db))). link_memory_id l \<noteq> i"
    by (auto simp: deleteMemory_def sqlDeleteMemories_def Let_def)
  from h gone have logs:
    "\<forall>a \<in> set (memory_access_log (snd (deleteMemory i db))). log_memory_id a \<noteq> i"
    by (auto simp: deleteMemory_def sqlDeleteMemories_def Let_def)
  from h gone have rels: "\<forall>e \<in> set (memory_relations (snd (deleteMemory i db))).
           source_id e \<noteq> i \<and> target_id e \<noteq> i"
    by (auto simp: deleteMemory_def sqlDeleteMemories_def Let_def)
  have others: "structured_memories (snd (deleteMemory i db))
         = filter (\<lambda>r. idR r \<noteq> i) (structured_memories db)"
    by (simp add: deleteMemory_def sqlDeleteMemories_def Let_def)
  from h have "fst (deleteMemory i db)" by (simp add: deleteMemory_def)
  with rows links logs rels others
  show "fst (deleteMemory i db)
     \<and> \<not> memoryExists (snd (deleteMemory i db)) i
     \<and> (\<forall>l \<in> set (memory_tags (snd (deleteMemory i db))). link_memory_id l \<noteq> i)
     \<and> (\<forall>a \<in> set (memory_access_log (snd (deleteMemory i db))). log_memory_id a \<noteq> i)
     \<and> (\<forall>e \<in> set (memory_relations (snd (deleteMemory i db))).
           source_id e \<noteq> i \<and> target_id e \<noteq> i)
     \<and> structured_memories (snd (deleteMemory i db))
         = filter (\<lambda>r. idR r \<noteq> i) (structured_memories db)"
    by blast
qed

text \<open>
  The claim as stated fails in its last clause. Weekly compaction of the six notes
  creates the summary \<^verbatim>\<open>uuid-0\<close>, whose \<^verbatim>\<open>compressed_from\<close> lists the six; deleting the
  note \<^verbatim>\<open>n1\<close> afterwards, with the foreign keys enforced, leaves that row of
  \<^verbatim>\<open>structured_memories\<close> with \<^verbatim>\<open>n1\<close> still in its list.
\<close>

theorem C8_deleted_id_stays_in_compressed_from_counterexample:
  "(case compressToWeekly DEFAULT_compression uuidGen 0 nowExample sixNotes of
      (res, db1) \<Rightarrow>
        res = Inr (1, 0) \<and> foreign_keys db1 \<and> memoryExists db1 ''n1''
        \<and> (case deleteMemory ''n1'' db1 of
              (deleted, db2) \<Rightarrow>
                deleted \<and> \<not> memoryExists db2 ''n1''
                \<and> map (\<lambda>r. (idR r, compressed_from r)) (structured_memories db2)
                    = [(''n2'', None), (''n3'', None), (''n4'', None), (''n5'', None),
                       (''n6'', None),
                       (''uuid-0'', Some [''n1'', ''n2'', ''n3'', ''n4'', ''n5'', ''n6''])]))"
  by code_simp

theorem C8_delete_cascades_witness:
  "foreign_keys linkedStore \<and> memoryExists linkedStore ''m1''
   \<and> map link_memory_id (memory_tags linkedStore) = [''m1'']
   \<and> map log_memory_id (memory_access_log linkedStore) = [''m1'']
   \<and> map (\<lambda>e. (source_id e, target_id e)) (memory_relations linkedStore)
       = [(''m1'', ''m2''), (''m2'', ''m1'')]
   \<and> fst (deleteMemory ''m1'' linkedStore)
   \<and> \<not> memoryExists (snd (deleteMemory ''m1'' linkedStore)) ''m1''
   \<and> list_all (\<lambda>l. link_memory_id l \<noteq> ''m1'') (memory_tags (snd (deleteMemory ''m1'' linkedStore)))
   \<and> list_all (\<lambda>a. log_memory_id a \<noteq> ''m1'')
         (memory_access_log (snd (deleteMemory ''m1'' linkedStore)))
   \<and> list_all (\<lambda>e. source_id e \<noteq> ''m1'' \<and> target_id e \<noteq> ''m1'')
         (memory_relations (snd (deleteMemory ''m1'' linkedStore)))
   \<and> map idR (structured_memories (snd (deleteMemory ''m1'' linkedStore))) = [''m2'']"
proof -
  have pre: "foreign_keys linkedStore \<and> memoryExists linkedStore ''m1''
      \<and> map link_memory_id (memory_tags linkedStore) = [''m1'']
      \<and> map log_memory_id (memory_access_log linkedStore) = [''m1'']
      \<and> map (\<lambda>e. (source_id e, target_id e)) (memory_relations linkedStore)
          = [(''m1'', ''m2''), (''m2'', ''m1'')]"
    by code_simp
  have post: "map idR (structured_memories (snd (deleteMemory ''m1'' linkedStore))) = [''m2'']"
    by code_simp
  from pre C8_delete_cascades [of linkedStore "''m1''"]
  have "fst (deleteMemory ''m1'' linkedStore)
     \<and> \<not> memoryExists (snd (deleteMemory ''m1'' linkedStore)) ''m1''
     \<and> (\<forall>l \<in> set (memory_tags (snd (deleteMemory ''m1'' linkedStore))). link_memory_id l \<noteq> ''m1'')
     \<and> (\<forall>a \<in> set (memory_access_log (snd (deleteMemory ''m1'' linkedStore))).
           log_memory_id a \<noteq> ''m1'')
     \<and> (\<forall>e \<in> set (memory_relations (snd (deleteMemory ''m1'' linkedStore))).
           source_id e \<noteq> ''m1'' \<and> target_id e \<noteq> ''m1'')"
    by blast
  with pre post show ?thesis by (simp add: list_all_iff)
qed

section \<open>Evaluations of the code where it departs from its description\<close>

text \<open>
  Claim C1. Six level-0 notes of ISO week 43 of 2026, older than seven days, with the
  default minimum group size of five: \<^verbatim>\<open>compressToWeekly\<close> forms one group of the six,
  creates one \<^verbatim>\<open>summary\<close> record of level 1 whose \<^verbatim>\<open>compressedFrom\<close> lists the six
  identifiers, and keeps the six originals. The originals do not report level 1
  afterwards, though: \<^verbatim>\<open>updateMemory\<close> has no clause for \<^verbatim>\<open>compressionLevel\<close>, so that
  the call meant to mark them writes nothing and each still reports level 0.
\<close>

theorem C1_weekly_sources_stay_at_level_0:
  "map (\<lambda>g. (fst g, map idM (snd g)))
     (groupByWeek 0 (weeklySelection (nowExample - 7 * dayInMs) sixNotes))
     = [(''2026-W43'', [''n1'', ''n2'', ''n3'', ''n4'', ''n5'', ''n6''])]
   \<and> (case compressToWeekly DEFAULT_compression uuidGen 0 nowExample sixNotes of
         (res, db') \<Rightarrow>
           res = Inr (1, 0)
           \<and> map (\<lambda>r. (idR r, memory_type r, compression_level r, compressed_from r))
                 (structured_memories db')
               = [(''n1'', Note, 0, None), (''n2'', Note, 0, None), (''n3'', Note, 0, None),
                  (''n4'', Note, 0, None), (''n5'', Note, 0, None), (''n6'', Note, 0, None),
                  (''uuid-0'', Summary, 1,
                   Some [''n1'', ''n2'', ''n3'', ''n4'', ''n5'', ''n6''])]
           \<and> map (\<lambda>i. map_option compressionLevel (getMemory db' i))
                 [''n1'', ''n2'', ''n3'', ''n4'', ''n5'', ''n6'']
               = [Some (Some 0), Some (Some 0), Some (Some 0), Some (Some 0), Some (Some 0),
                  Some (Some 0)])"
  by code_simp

text \<open>
  What every stage selects: records created before the cutoff, of a type other than
  \<^verbatim>\<open>summary\<close>, whose level is at most the level asked for.
\<close>

lemma getMemoriesForCompression_bound:
  assumes "m \<in> set (getMemoriesForCompression olderThan level limit db)"
  shows "(\<exists>l. compressionLevel m = Some l \<and> l \<le> level) \<and> memoryType m \<noteq> Summary
         \<and> createdAt m < olderThan"
proof -
  let ?rows = "filter (\<lambda>r. created_at r < olderThan \<and> compression_level r \<le> level
                           \<and> memory_type r \<noteq> Summary) (structured_memories db)"
  have "set (sqlLimit limit 0 (sort_key created_at ?rows)) \<subseteq> set ?rows"
    by (auto simp: sqlLimit_def Let_def dest: in_set_takeD)
  with assms obtain r where "r \<in> set ?rows" "m = rowToMemory db r"
    by (auto simp: getMemoriesForCompression_def)
  then show ?thesis by (simp add: rowToMemory_def)
qed

text \<open>
  Claim C3. The three stages read their candidates with \<^verbatim>\<open>compression_level <= ?\<close>, for
  0, 1 and 2. For the archive stage this admits every level below 2: a level-0 note, a
  hundred days old and never accessed, is selected by \<^verbatim>\<open>archiveOldMemories\<close> and
  retyped to \<^verbatim>\<open>archive\<close>.
\<close>

theorem C3_archival_selects_level_0:
  "map (\<lambda>m. (idM m, compressionLevel m, accessedAt m))
     (archiveSelection (nowExample - 90 * dayInMs) staleNote)
     = [(''old0'', Some 0, None)]
   \<and> (case archiveOldMemories DEFAULT_compression nowExample staleNote of
         (res, db') \<Rightarrow>
           res = Inr (1, 0)
           \<and> map (\<lambda>r. (idR r, memory_type r, compression_level r)) (structured_memories db')
               = [(''old0'', Archive, 0)])"
  by code_simp

text \<open>
  Claim C7. \<^verbatim>\<open>setTagsForMemory\<close> recounts the tags it links, not the ones it unlinks. In a
  store whose counts are right, replacing the tag set \<^verbatim>\<open>[a]\<close> of a record by \<^verbatim>\<open>[b]\<close>
  leaves tag \<^verbatim>\<open>a\<close> with a count of 1 and no link row.
\<close>

theorem C7_removed_tag_keeps_stale_count:
  "tagCountsConsistent linkedStore
   \<and> getTagsForMemory linkedStore ''m1'' = [''a'']
   \<and> (case updateMemory nowExample ''m1'' (noUpdates\<lparr>tagsU := Some [''b'']\<rparr>) linkedStore of
         (res, db') \<Rightarrow>
           getTagsForMemory db' ''m1'' = [''b'']
           \<and> map (\<lambda>t. (tag_id t, tag_name t, memory_count t)) (tagsT db')
               = [(1, ''a'', 1), (2, ''b'', 1)]
           \<and> memory_tags db' = [\<lparr>link_memory_id = ''m1'', link_tag_id = 2\<rparr>]
           \<and> \<not> tagCountsConsistent db')"
  by code_simp

text \<open>
  Claim C9. \<^verbatim>\<open>search\<close> records one access, under the literal identifier
  \<^verbatim>\<open>search-query\<close>, before it queries the store, and none for the records it returns.
  With foreign keys enforced that insert is refused and the search fails; without, the
  search returns the matching record, whose access count and access time stay as they
  were, and the log holds the one row of \<^verbatim>\<open>search-query\<close>.
\<close>

theorem C9_search_logs_no_access_for_results:
  "search DEFAULT_query nowExample False ''blue'' None
     (storeOf True [noteRow ''m1'' 1792411200000 0])
     = (Inl ForeignKeyConstraintFailed, storeOf True [noteRow ''m1'' 1792411200000 0])
   \<and> (case search DEFAULT_query nowExample False ''blue'' None
              (storeOf False [noteRow ''m1'' 1792411200000 0]) of
         (res, db') \<Rightarrow>
           res = Inr [\<lparr>resultPath = ''MEMORY.md'', startLine = 1, endLine = 1,
                       score = 19 / 25, snippet = ''blue door'', source = ''memory''\<rparr>]
           \<and> map idM (searchedMemories ''blue'' 10 db') = [''m1'']
           \<and> map log_memory_id (memory_access_log db') = [''search-query'']
           \<and> map (\<lambda>r. (idR r, access_count r, accessed_at r)) (structured_memories db')
               = [(''m1'', 0, None)])"
  by code_simp

section \<open>Successive recalculations\<close>

text \<open>
  With identifiers that are pairwise distinct (the primary key), the loop of
  \<^verbatim>\<open>recalculateImportance\<close> writes to every row the score computed from that row.
\<close>

lemma recalc_fold_map:
  "distinct (map idR ms) \<Longrightarrow>
   structured_memories
     (fold (\<lambda>mem d. sqlSetScore (newScore cfg now mem) (idR mem) d) ms db)
   = map (\<lambda>r. case find (\<lambda>m. idR m = idR r) ms of
                  None \<Rightarrow> r
                | Some m \<Rightarrow> r\<lparr>importance_score := newScore cfg now m\<rparr>)
       (structured_memories db)"
proof (induction ms arbitrary: db)
  case Nil
  show ?case by simp
next
  case (Cons m ms)
  from Cons.prems have d: "distinct (map idR ms)" and fresh: "idR m \<notin> idR ` set ms" by auto
  from fresh have nf: "find (\<lambda>x. idR x = idR m) ms = None"
    unfolding find_None_iff by (metis imageI)
  have "structured_memories
     (fold (\<lambda>mem d. sqlSetScore (newScore cfg now mem) (idR mem) d) (m # ms) db)
     = map (\<lambda>r. case find (\<lambda>x. idR x = idR r) ms of
                  None \<Rightarrow> r
                | Some x \<Rightarrow> r\<lparr>importance_score := newScore cfg now x\<rparr>)
         (structured_memories (sqlSetScore (newScore cfg now m) (idR m) db))"
    using Cons.IH[OF d] by simp
  also have "\<dots> = map (\<lambda>r. case find (\<lambda>x. idR x = idR r) (m # ms) of
                  None \<Rightarrow> r
                | Some x \<Rightarrow> r\<lparr>importance_score := newScore cfg now x\<rparr>)
         (structured_memories db)"
    by (auto simp: sqlSetScore_def nf)
  finally show ?case .
qed

lemma find_self: "distinct (map idR rows) \<Longrightarrow> r \<in> set rows \<Longrightarrow>
  find (\<lambda>m. idR m = idR r) rows = Some r"
proof (induction rows)
  case Nil
  then show ?case by simp
next
  case (Cons a rows)
  then show ?case by (cases "a = r") force+
qed

lemma recalc_map:
  assumes "importance_enabled cfg" "distinct (map idR (structured_memories db))"
  shows "structured_memories (recalculateImportance cfg now db)
         = map (\<lambda>r. r\<lparr>importance_score := newScore cfg now r\<rparr>) (structured_memories db)"
proof -
  have "structured_memories (recalculateImportance cfg now db)
        = map (\<lambda>r. case find (\<lambda>m. idR m = idR r) (structured_memories db) of
                  None \<Rightarrow> r
                | Some m \<Rightarrow> r\<lparr>importance_score := newScore cfg now m\<rparr>)
            (structured_memories db)"
    using assms by (simp add: recalculateImportance_def recalc_fold_map)
  also have "\<dots> = map (\<lambda>r. r\<lparr>importance_score := newScore cfg now r\<rparr>) (structured_memories db)"
    using assms(2) by (auto simp: find_self)
  finally show ?thesis .
qed

lemma Math_pow_le_one: "0 < d \<Longrightarrow> d \<le> 1 \<Longrightarrow> 0 \<le> a \<Longrightarrow> 0 \<le> Math_pow d a \<and> Math_pow d a \<le> 1"
  by (simp add: Math_pow_def powr_le1)

text \<open>
  The second of two recalculations of a never accessed record, when no recency boost
  applies to it.
\<close>

lemma newScore_twice:
  assumes d: "0 < decayFactor cfg" "decayFactor cfg \<le> 1"
    and acc: "access_count mem = 0"
    and age: "created_at mem \<le> now2"
    and cold: "recencyBoost cfg = 0 \<or> created_at mem + 30 * dayInMs \<le> now2"
  shows "newScore cfg now2 (mem\<lparr>importance_score := newScore cfg now1 mem\<rparr>)
         \<le> newScore cfg now1 mem"
proof -
  let ?s1 = "newScore cfg now1 mem"
  let ?a = "ageInDays now2 (created_at mem)"
  have s1: "0 \<le> ?s1" "?s1 \<le> 1" using newScore_range[of cfg now1 mem] by simp_all
  from age have a0: "0 \<le> ?a" by (simp add: ageInDays_def dayInMs_def)
  have rec: "max 0 (1 - ?a / 30) * recencyBoost cfg = 0"
  proof (cases "recencyBoost cfg = 0")
    case True
    then show ?thesis by simp
  next
    case False
    with cold have "created_at mem + 30 * dayInMs \<le> now2" by simp
    then have "30 * real_of_int dayInMs \<le> real_of_int (now2 - created_at mem)"
      by (simp add: dayInMs_def)
    then have "30 \<le> ?a" by (simp add: ageInDays_def dayInMs_def field_simps)
    then show ?thesis by simp
  qed
  from Math_pow_le_one[OF d a0] have p: "0 \<le> Math_pow (decayFactor cfg) ?a"
    "Math_pow (decayFactor cfg) ?a \<le> 1" by simp_all
  from s1 p have lo: "0 \<le> ?s1 * Math_pow (decayFactor cfg) ?a" by simp
  from s1 p have hi: "?s1 * Math_pow (decayFactor cfg) ?a \<le> ?s1"
    by (simp add: mult_left_le)
  have "newScore cfg now2 (mem\<lparr>importance_score := ?s1\<rparr>)
        = clamp01 (?s1 * Math_pow (decayFactor cfg) ?a
                   + max 0 (1 - ?a / 30) * recencyBoost cfg)"
    using acc by (simp add: newScore_def[of cfg now2] Let_def)
  also have "\<dots> = clamp01 (?s1 * Math_pow (decayFactor cfg) ?a)"
    by (simp only: rec add_0_right)
  also from lo hi s1 have "\<dots> = ?s1 * Math_pow (decayFactor cfg) ?a"
    by (simp add: clamp01_def)
  finally show ?thesis using hi by simp
qed

lemma newScore_example:
  assumes "decayFactor cfg = 95 / 100" "importance_score mem = 9 / 10" "access_count mem = 0"
    "now - created_at mem = 40 * dayInMs"
  shows "newScore cfg now mem < 9 / 10"
proof -
  from assms(4) have a: "ageInDays now (created_at mem) = 40"
    by (simp add: ageInDays_def dayInMs_def)
  define p where "p = Math_pow (95 / 100) 40"
  have pw: "p = (95 / 100 :: real) powr 40" by (simp only: p_def Math_pow_def) simp
  have p0: "0 \<le> p" unfolding pw by (rule powr_ge_zero)
  have p1: "p < 1" unfolding pw by (rule iffD2[OF powr01_less_one]) simp_all
  have "newScore cfg now mem = clamp01 (9 / 10 * p)"
    unfolding newScore_def Let_def a assms(1) assms(2) assms(3) p_def by simp
  also from p0 p1 have "\<dots> = 9 / 10 * p"
    by (simp add: clamp01_def)
  also from p1 have "\<dots> < 9 / 10" by simp
  finally show ?thesis .
qed

text \<open>
  Claim C6, as the code has it. For a record with zero accesses and a decay factor in
  \<open>(0, 1]\<close>, the second of two successive recalculations yields a score no greater than
  the first provided no recency boost applies at the second: the boost is configured
  as 0, or the record is at least thirty days old by then. A record of score 0.9, forty
  days old, with zero accesses and a decay factor of 0.95 recalculates to a score
  strictly less than 0.9.
\<close>

theorem C6_recalculation_non_increasing_without_recency_boost:
  "(importance_enabled cfg \<and> 0 < decayFactor cfg \<and> decayFactor cfg \<le> 1
      \<and> distinct (map idR (structured_memories db)) \<and> k < length (structured_memories db)
      \<and> access_count (structured_memories db ! k) = 0
      \<and> created_at (structured_memories db ! k) \<le> now2
      \<and> (recencyBoost cfg = 0 \<or> created_at (structured_memories db ! k) + 30 * dayInMs \<le> now2)
    \<longrightarrow> importance_score
          (structured_memories
             (recalculateImportance cfg now2 (recalculateImportance cfg now1 db)) ! k)
        \<le> importance_score (structured_memories (recalculateImportance cfg now1 db) ! k))
   \<and> (importance_enabled cfg \<and> decayFactor cfg = 95 / 100
      \<and> distinct (map idR (structured_memories db)) \<and> k < length (structured_memories db)
      \<and> importance_score (structured_memories db ! k) = 9 / 10
      \<and> access_count (structured_memories db ! k) = 0
      \<and> now - created_at (structured_memories db ! k) = 40 * dayInMs
    \<longrightarrow> importance_score (structured_memories (recalculateImportance cfg now db) ! k) < 9 / 10)"
proof -
  have mono: "importance_score
          (structured_memories
             (recalculateImportance cfg now2 (recalculateImportance cfg now1 db)) ! k)
        \<le> importance_score (structured_memories (recalculateImportance cfg now1 db) ! k)"
    if h: "importance_enabled cfg \<and> 0 < decayFactor cfg \<and> decayFactor cfg \<le> 1
      \<and> distinct (map idR (structured_memories db)) \<and> k < length (structured_memories db)
      \<and> access_count (structured_memories db ! k) = 0
      \<and> created_at (structured_memories db ! k) \<le> now2
      \<and> (recencyBoost cfg = 0 \<or> created_at (structured_memories db ! k) + 30 * dayInMs \<le> now2)"
  proof -
    let ?rows = "structured_memories db"
    let ?db1 = "recalculateImportance cfg now1 db"
    from h have r1: "structured_memories ?db1
        = map (\<lambda>r. r\<lparr>importance_score := newScore cfg now1 r\<rparr>) ?rows"
      by (simp add: recalc_map)
    then have "map idR (structured_memories ?db1) = map idR ?rows" by simp
    with h have d1: "distinct (map idR (structured_memories ?db1))" by simp
    from h d1 have r2: "structured_memories (recalculateImportance cfg now2 ?db1)
        = map (\<lambda>r. r\<lparr>importance_score := newScore cfg now2 r\<rparr>) (structured_memories ?db1)"
      by (simp add: recalc_map)
    from h r1 have k1: "structured_memories ?db1 ! k
        = (?rows ! k)\<lparr>importance_score := newScore cfg now1 (?rows ! k)\<rparr>"
      by simp
    from h r1 r2 k1 have k2: "importance_score (structured_memories (recalculateImportance cfg now2 ?db1) ! k)
        = newScore cfg now2 ((?rows ! k)\<lparr>importance_score := newScore cfg now1 (?rows ! k)\<rparr>)"
      by simp
    from h have "newScore cfg now2 ((?rows ! k)\<lparr>importance_score := newScore cfg now1 (?rows ! k)\<rparr>)
        \<le> newScore cfg now1 (?rows ! k)"
      by (intro newScore_twice) simp_all
    with k1 k2 show ?thesis by simp
  qed
  have ex: "importance_score (structured_memories (recalculateImportance cfg now db) ! k) < 9 / 10"
    if h: "importance_enabled cfg \<and> decayFactor cfg = 95 / 100
      \<and> distinct (map idR (structured_memories db)) \<and> k < length (structured_memories db)
      \<and> importance_score (structured_memories db ! k) = 9 / 10
      \<and> access_count (structured_memories db ! k) = 0
      \<and> now - created_at (structured_memories db ! k) = 40 * dayInMs"
  proof -
    from h have "structured_memories (recalculateImportance cfg now db)
        = map (\<lambda>r. r\<lparr>importance_score := newScore cfg now r\<rparr>) (structured_memories db)"
      by (simp add: recalc_map)
    with h have "importance_score (structured_memories (recalculateImportance cfg now db) ! k)
        = newScore cfg now (structured_memories db ! k)"
      by simp
    moreover from h have "newScore cfg now (structured_memories db ! k) < 9 / 10"
      by (intro newScore_example) simp_all
    ultimately show ?thesis by simp
  qed
  from mono ex show ?thesis by blast
qed

text \<open>
  The claim as stated fails: a note of score 0.5 recalculated on the day it was made
  scores 0.6 (the full recency boost), and recalculated again a day later scores 2/3,
  with no access in between.
\<close>

theorem C6_recalculation_increases_counterexample:
  "map access_count (structured_memories freshNote) = [0]
   \<and> map importance_score
         (structured_memories (recalculateImportance DEFAULT_importance nowExample freshNote))
       = [3 / 5]
   \<and> map importance_score
         (structured_memories
            (recalculateImportance DEFAULT_importance (nowExample + dayInMs)
               (recalculateImportance DEFAULT_importance nowExample freshNote)))
       = [2 / 3]
   \<and> \<not> (importance_score
           (structured_memories
              (recalculateImportance DEFAULT_importance (nowExample + dayInMs)
                 (recalculateImportance DEFAULT_importance nowExample freshNote)) ! 0)
         \<le> importance_score
              (structured_memories
                 (recalculateImportance DEFAULT_importance nowExample freshNote) ! 0))"
  by (simp add: recalculateImportance_def DEFAULT_importance_def freshNote_def storeOf_def
        noteRow_def sqlSetScore_def newScore_def ageInDays_def Math_pow_def clamp01_def Let_def
        dayInMs_def)

theorem C6_recalculation_non_increasing_witness:
  "importance_enabled DEFAULT_importance \<and> 0 < decayFactor DEFAULT_importance
   \<and> decayFactor DEFAULT_importance \<le> 1
   \<and> decayFactor DEFAULT_importance = 95 / 100
   \<and> distinct (map idR (structured_memories (storeOf True [agedRecord])))
   \<and> 0 < length (structured_memories (storeOf True [agedRecord]))
   \<and> importance_score (structured_memories (storeOf True [agedRecord]) ! 0) = 9 / 10
   \<and> access_count (structured_memories (storeOf True [agedRecord]) ! 0) = 0
   \<and> nowExample - created_at (structured_memories (storeOf True [agedRecord]) ! 0) = 40 * dayInMs
   \<and> created_at (structured_memories (storeOf True [agedRecord]) ! 0) + 30 * dayInMs
       \<le> nowExample + dayInMs
   \<and> importance_score
        (structured_memories
           (recalculateImportance DEFAULT_importance (nowExample + dayInMs)
              (recalculateImportance DEFAULT_importance nowExample
                 (storeOf True [agedRecord]))) ! 0)
      \<le> importance_score
           (structured_memories
              (recalculateImportance DEFAULT_importance nowExample (storeOf True [agedRecord])) ! 0)
   \<and> importance_score
        (structured_memories
           (recalculateImportance DEFAULT_importance nowExample (storeOf True [agedRecord])) ! 0)
      < 9 / 10"
proof -
  have pre: "importance_enabled DEFAULT_importance \<and> 0 < decayFactor DEFAULT_importance
   \<and> decayFactor DEFAULT_importance \<le> 1
   \<and> decayFactor DEFAULT_importance = 95 / 100
   \<and> distinct (map idR (structured_memories (storeOf True [agedRecord])))
   \<and> 0 < length (structured_memories (storeOf True [agedRecord]))
   \<and> importance_score (structured_memories (storeOf True [agedRecord]) ! 0) = 9 / 10
   \<and> access_count (structured_memories (storeOf True [agedRecord]) ! 0) = 0
   \<and> nowExample - created_at (structured_memories (storeOf True [agedRecord]) ! 0) = 40 * dayInMs
   \<and> created_at (structured_memories (storeOf True [agedRecord]) ! 0) \<le> nowExample + dayInMs
   \<and> created_at (structured_memories (storeOf True [agedRecord]) ! 0) + 30 * dayInMs
       \<le> nowExample + dayInMs"
    by (simp add: DEFAULT_importance_def storeOf_def agedRecord_def noteRow_def dayInMs_def
          nowExample_def)
  from pre
    C6_recalculation_non_increasing_without_recency_boost
      [of DEFAULT_importance "storeOf True [agedRecord]" 0 "nowExample + dayInMs" nowExample
          nowExample]
  show ?thesis by simp
qed

section \<open>Matching a section to a record\<close>

lemma calculateSimilarity_sets:
  "calculateSimilarity a b
   = real (card (wordSet a \<inter> wordSet b)) / real (max (card (wordSet a)) (card (wordSet b)))"
proof -
  let ?as = "remdups (splitWs (toLowerCase a))"
  let ?bs = "remdups (splitWs (toLowerCase b))"
  have "distinct (filter (\<lambda>x. x \<in> set ?bs) ?as)" by simp
  then have "length (filter (\<lambda>x. x \<in> set ?bs) ?as) = card (set (filter (\<lambda>x. x \<in> set ?bs) ?as))"
    by (simp only: distinct_card)
  also have "set (filter (\<lambda>x. x \<in> set ?bs) ?as) = wordSet a \<inter> wordSet b"
    by (auto simp: wordSet_def)
  finally have i: "length (filter (\<lambda>x. x \<in> set ?bs) ?as) = card (wordSet a \<inter> wordSet b)" .
  have la: "length ?as = card (wordSet a)" and lb: "length ?bs = card (wordSet b)"
    by (simp_all add: wordSet_def length_remdups_card_conv)
  show ?thesis
    unfolding calculateSimilarity_def Let_def i la lb ..
qed

lemma getMemory_exists: "memoryExists db i \<Longrightarrow> \<exists>m. getMemory db i = Some m"
proof -
  assume "memoryExists db i"
  then have "find (\<lambda>r. idR r = i) (structured_memories db) \<noteq> None"
    by (auto simp: memoryExists_def find_None_iff)
  then show ?thesis by (auto simp: getMemory_def split: option.splits)
qed

lemma updateMemory_content_type:
  assumes "memoryExists db i"
  shows "snd (updateMemory now i (noUpdates\<lparr>contentU := Some c, memoryTypeU := Some ty\<rparr>) db)
         = sqlUpdateMemory [SetContent c, SetMemoryType ty, SetUpdatedAt now] i db
       \<and> (\<exists>r. fst (updateMemory now i (noUpdates\<lparr>contentU := Some c, memoryTypeU := Some ty\<rparr>) db)
              = Inr r)"
proof -
  from getMemory_exists[OF assms] obtain m where "getMemory db i = Some m" by blast
  then show ?thesis
    by (simp add: updateMemory_def noUpdates_def updateSets_def Let_def)
qed

text \<open>
  Claim C4, as the code has it. The score of two texts is the number of words they
  share over the size of the larger of their two word sets (lowercase,
  whitespace-separated). A section whose similarity to the existing record is strictly
  greater than 0.7 is applied as an update of that record in place, and a section at or
  below the threshold is inserted as a new record.
\<close>

theorem C4_similarity_is_overlap_over_larger_set:
  "calculateSimilarity a b
     = real (card (wordSet a \<inter> wordSet b)) / real (max (card (wordSet a)) (card (wordSet b)))
   \<and> (calculateSimilarity (content existing) (sectionContent sec) > 7 / 10
        \<and> memoryExists db (idM existing) \<longrightarrow>
        fst (syncSection gen now srcPath existing sec db) = Inr (UpdatedInPlace (idM existing))
        \<and> structured_memories (snd (syncSection gen now srcPath existing sec db))
            = map (\<lambda>r. if idR r = idM existing
                        then r\<lparr>contentR := sectionContent sec, memory_type := sectionType sec,
                               updated_at := now\<rparr>
                        else r)
                (structured_memories db))
   \<and> (calculateSimilarity (content existing) (sectionContent sec) \<le> 7 / 10
        \<and> \<not> memoryExists db (gen (uuid_count db)) \<longrightarrow>
        fst (syncSection gen now srcPath existing sec db)
          = Inr (InsertedNew (gen (uuid_count db)))
        \<and> structured_memories (snd (syncSection gen now srcPath existing sec db))
            = structured_memories db
              @ [memoryToRow ((sectionMemory srcPath sec)
                   \<lparr>idM := gen (uuid_count db), createdAt := now, updatedAt := now,
                     accessCount := 0\<rparr>)])"
proof -
  have upd: "fst (syncSection gen now srcPath existing sec db) = Inr (UpdatedInPlace (idM existing))
        \<and> structured_memories (snd (syncSection gen now srcPath existing sec db))
            = map (\<lambda>r. if idR r = idM existing
                        then r\<lparr>contentR := sectionContent sec, memory_type := sectionType sec,
                               updated_at := now\<rparr>
                        else r)
                (structured_memories db)"
    if h: "calculateSimilarity (content existing) (sectionContent sec) > 7 / 10
        \<and> memoryExists db (idM existing)"
  proof -
    from h have f: "findSectionByContent existing (sectionContent sec) = Some existing"
      by (simp add: findSectionByContent_def)
    obtain res db1 where u: "updateMemory now (idM existing)
        (noUpdates\<lparr>contentU := Some (sectionContent sec),
                   memoryTypeU := Some (sectionType sec)\<rparr>) db = (res, db1)"
      by (cases "updateMemory now (idM existing)
        (noUpdates\<lparr>contentU := Some (sectionContent sec),
                   memoryTypeU := Some (sectionType sec)\<rparr>) db")
    from h updateMemory_content_type[where db = db and i = "idM existing" and now = now
        and c = "sectionContent sec" and ty = "sectionType sec"] u
    obtain r where r: "res = Inr r"
      and d: "db1 = sqlUpdateMemory [SetContent (sectionContent sec),
                SetMemoryType (sectionType sec), SetUpdatedAt now] (idM existing) db"
      by auto
    from f u r have "syncSection gen now srcPath existing sec db
        = (Inr (UpdatedInPlace (idM existing)), db1)"
      by (simp add: syncSection_def)
    with d show ?thesis by (simp add: sqlUpdateMemory_def)
  qed
  have ins: "fst (syncSection gen now srcPath existing sec db)
          = Inr (InsertedNew (gen (uuid_count db)))
        \<and> structured_memories (snd (syncSection gen now srcPath existing sec db))
            = structured_memories db
              @ [memoryToRow ((sectionMemory srcPath sec)
                   \<lparr>idM := gen (uuid_count db), createdAt := now, updatedAt := now,
                     accessCount := 0\<rparr>)]"
    if h: "calculateSimilarity (content existing) (sectionContent sec) \<le> 7 / 10
        \<and> \<not> memoryExists db (gen (uuid_count db))"
  proof -
    from h have f: "findSectionByContent existing (sectionContent sec) = None"
      by (simp add: findSectionByContent_def)
    obtain res db1 where c: "createMemory gen now (sectionMemory srcPath sec) db = (res, db1)"
      by (cases "createMemory gen now (sectionMemory srcPath sec) db")
    from createMemory_cases[OF c] h
    have "res = Inr ((sectionMemory srcPath sec)
                   \<lparr>idM := gen (uuid_count db), createdAt := now, updatedAt := now,
                     accessCount := 0\<rparr>)"
      "structured_memories db1 = structured_memories db
              @ [memoryToRow ((sectionMemory srcPath sec)
                   \<lparr>idM := gen (uuid_count db), createdAt := now, updatedAt := now,
                     accessCount := 0\<rparr>)]"
      by simp_all
    with f c show ?thesis by (simp add: syncSection_def)
  qed
  from calculateSimilarity_sets upd ins show ?thesis by blast
qed

text \<open>
  The claim as stated fails twice. Against a record of ten words, a section of seven of
  them has similarity 0.7 by either measure and is inserted as a new record, the
  threshold being strict; a section of eight of them and two other words has a Jaccard
  similarity of 2/3 and is applied as an update in place, its score being 0.8.
\<close>

theorem C4_jaccard_threshold_counterexample:
  "calculateSimilarity tenMonths sevenOfTen = 7 / 10
   \<and> specJaccard tenMonths sevenOfTen = 7 / 10
   \<and> (case syncFile uuidGen nowExample memoryMd sevenOfTen monthsStore of
         (res, db') \<Rightarrow>
           res = Inr Updated
           \<and> map (\<lambda>r. (idR r, contentR r)) (structured_memories db')
               = [(''m1'', tenMonths), (''uuid-0'', sevenOfTen)])
   \<and> calculateSimilarity tenMonths eightOfTen = 8 / 10
   \<and> specJaccard tenMonths eightOfTen = 2 / 3
   \<and> calculateSimilarity tenMonths eightOfTen \<noteq> specJaccard tenMonths eightOfTen
   \<and> (case syncFile uuidGen nowExample memoryMd eightOfTen monthsStore of
         (res, db') \<Rightarrow>
           res = Inr Updated
           \<and> map (\<lambda>r. (idR r, contentR r)) (structured_memories db') = [(''m1'', eightOfTen)])"
  by code_simp

theorem C4_similarity_is_overlap_over_larger_set_witness:
  "calculateSimilarity (content monthsRecord) (sectionContent eightSection) > 7 / 10
   \<and> memoryExists monthsStore (idM monthsRecord)
   \<and> idM monthsRecord = ''m1''
   \<and> fst (syncSection uuidGen nowExample ''MEMORY.md'' monthsRecord eightSection monthsStore)
       = Inr (UpdatedInPlace (idM monthsRecord))
   \<and> structured_memories
        (snd (syncSection uuidGen nowExample ''MEMORY.md'' monthsRecord eightSection monthsStore))
       = map (\<lambda>r. if idR r = idM monthsRecord
                   then r\<lparr>contentR := sectionContent eightSection,
                          memory_type := sectionType eightSection, updated_at := nowExample\<rparr>
                   else r)
           (structured_memories monthsStore)
   \<and> calculateSimilarity (content monthsRecord) (sectionContent sevenSection) \<le> 7 / 10
   \<and> \<not> memoryExists monthsStore (uuidGen (uuid_count monthsStore))
   \<and> uuidGen (uuid_count monthsStore) = ''uuid-0''
   \<and> fst (syncSection uuidGen nowExample ''MEMORY.md'' monthsRecord sevenSection monthsStore)
       = Inr (InsertedNew (uuidGen (uuid_count monthsStore)))
   \<and> structured_memories
        (snd (syncSection uuidGen nowExample ''MEMORY.md'' monthsRecord sevenSection monthsStore))
       = structured_memories monthsStore
         @ [memoryToRow ((sectionMemory ''MEMORY.md'' sevenSection)
              \<lparr>idM := uuidGen (uuid_count monthsStore), createdAt := nowExample,
                updatedAt := nowExample, accessCount := 0\<rparr>)]"
proof -
  have h8: "calculateSimilarity (content monthsRecord) (sectionContent eightSection) > 7 / 10"
    by code_simp
  have ex: "memoryExists monthsStore (idM monthsRecord)" by code_simp
  have i1: "idM monthsRecord = ''m1''" by code_simp
  have h7: "calculateSimilarity (content monthsRecord) (sectionContent sevenSection) \<le> 7 / 10"
    by code_simp
  have fr: "\<not> memoryExists monthsStore (uuidGen (uuid_count monthsStore))" by code_simp
  have u0: "uuidGen (uuid_count monthsStore) = ''uuid-0''" by code_simp
  note t8 = C4_similarity_is_overlap_over_larger_set
      [where existing = monthsRecord and sec = eightSection and db = monthsStore
         and gen = uuidGen and now = nowExample and srcPath = "''MEMORY.md''"]
  note t7 = C4_similarity_is_overlap_over_larger_set
      [where existing = monthsRecord and sec = sevenSection and db = monthsStore
         and gen = uuidGen and now = nowExample and srcPath = "''MEMORY.md''"]
  from t8 h8 ex have a: "fst (syncSection uuidGen nowExample ''MEMORY.md'' monthsRecord eightSection monthsStore)
       = Inr (UpdatedInPlace (idM monthsRecord))
   \<and> structured_memories
        (snd (syncSection uuidGen nowExample ''MEMORY.md'' monthsRecord eightSection monthsStore))
       = map (\<lambda>r. if idR r = idM monthsRecord
                   then r\<lparr>contentR := sectionContent eightSection,
                          memory_type := sectionType eightSection, updated_at := nowExample\<rparr>
                   else r)
           (structured_memories monthsStore)"
    by blast
  from t7 h7 fr have b: "fst (syncSection uuidGen nowExample ''MEMORY.md'' monthsRecord sevenSection monthsStore)
       = Inr (InsertedNew (uuidGen (uuid_count monthsStore)))
   \<and> structured_memories
        (snd (syncSection uuidGen nowExample ''MEMORY.md'' monthsRecord sevenSection monthsStore))
       = structured_memories monthsStore
         @ [memoryToRow ((sectionMemory ''MEMORY.md'' sevenSection)
              \<lparr>idM := uuidGen (uuid_count monthsStore), createdAt := nowExample,
                updatedAt := nowExample, accessCount := 0\<rparr>)]"
    by blast
  from h8 ex i1 a h7 fr u0 b show ?thesis by blast
qed

end
